theory Spec2Isabelle
  imports Complex_Main "HOL-Library.Char_ord" "HOL-Library.List_Lexorder" "HOL-Library.Multiset"
    "HOL-Library.Sublist"
begin

section \<open>JavaScript values\<close>

text \<open>
  The server (\<^verbatim>\<open>src/index.js\<close>) is JavaScript: tool arguments and remote
  response bodies are JSON values of any shape, and the code inspects them with
  truthiness tests, \<^verbatim>\<open>typeof\<close>, \<^verbatim>\<open>??\<close>, \<^verbatim>\<open>||\<close>,
  \<^verbatim>\<open><\<close> and property reads. The embedding therefore works on a datatype of
  JavaScript values and writes those operators out.

  A number is an IEEE double. Its finite values are modelled by the reals they denote
  (every comparison the code makes is then exact); \<open>NaN\<close> and the two infinities are
  constructors of their own. \<open>-0\<close> and \<open>+0\<close> are both \<open>Fin 0\<close>: the code never
  tells them apart.
\<close>

datatype jsnum = Fin real | NaN | PosInf | NegInf

datatype jsval =
    Undefined
  | Null
  | Bool bool
  | Num jsnum
  | Str string
  | Arr "jsval list"
  | Obj "(string \<times> jsval) list"

text \<open>
  A thrown value. The code throws \<^verbatim>\<open>new Error(msg)\<close>; the engine throws a
  \<^verbatim>\<open>TypeError\<close> on a property read of \<^verbatim>\<open>null\<close>/\<^verbatim>\<open>undefined\<close>,
  on a call of something that is not a function, and on an object that has no primitive
  value. Both carry a \<^verbatim>\<open>message\<close>; the texts of the engine's own messages are
  V8's and nothing below depends on them.
\<close>

datatype js_error = Error string | TypeError string

fun message :: "js_error \<Rightarrow> string" where
  "message (Error m) = m"
| "message (TypeError m) = m"

text \<open>Sequencing of computations that may throw: the first exception wins.\<close>

definition and_then :: "js_error + 'a \<Rightarrow> ('a \<Rightarrow> js_error + 'b) \<Rightarrow> js_error + 'b" where
  "and_then m f = (case m of Inl e \<Rightarrow> Inl e | Inr x \<Rightarrow> f x)"

text \<open>
  What the engine leaves to the implementation, or specifies at a length that is beside
  the point here, is a parameter of the model: every theorem holds for every engine.
  \<^item> \<open>String_trim\<close>: \<^verbatim>\<open>String.prototype.trim\<close>;
  \<^item> \<open>StringToNumber\<close>: the numeric value of a string (\<open>NaN\<close> when it is not
    a numeric literal);
  \<^item> \<open>NumberToString\<close>: the decimal rendering of a number;
  \<^item> \<open>ObjectToPrimitive\<close>: the primitive (always a string for JSON data) of an
    array or plain object, or the \<^verbatim>\<open>TypeError\<close> when it has none;
  \<^item> \<open>Date_parse\<close>: the time value in milliseconds that \<^verbatim>\<open>new Date(s)\<close>
    gets from a string, \<open>None\<close> for an Invalid Date (time value \<open>NaN\<close>);
  \<^item> \<open>localeCompare\<close>: \<^verbatim>\<open>a.localeCompare(b)\<close> on two strings;
  \<^item> \<open>Array_sort_other\<close>: what \<^verbatim>\<open>Array.prototype.sort\<close> does with the
    comparator of \<^verbatim>\<open>listStreams\<close> on two or more entries of which some title
    is not a string (which pairs are compared, hence whether the comparator throws, is
    implementation-defined);
  \<^item> \<open>JSON_stringify\<close>: \<^verbatim>\<open>JSON.stringify(v, null, 2)\<close>.
\<close>

record engine =
  String_trim :: "string \<Rightarrow> string"
  StringToNumber :: "string \<Rightarrow> jsnum"
  NumberToString :: "jsnum \<Rightarrow> string"
  ObjectToPrimitive :: "jsval \<Rightarrow> js_error + string"
  Date_parse :: "string \<Rightarrow> int option"
  localeCompare :: "string \<Rightarrow> string \<Rightarrow> int"
  Array_sort_other :: "jsval list \<Rightarrow> js_error + jsval list"
  JSON_stringify :: "jsval \<Rightarrow> string"

text \<open>\<^verbatim>\<open>ToBoolean\<close>: the falsy values are \<^verbatim>\<open>undefined\<close>, \<^verbatim>\<open>null\<close>,
  \<^verbatim>\<open>false\<close>, \<open>0\<close>, \<open>NaN\<close> and the empty string.\<close>

fun truthy :: "jsval \<Rightarrow> bool" where
  "truthy Undefined = False"
| "truthy Null = False"
| "truthy (Bool b) = b"
| "truthy (Num n) = (n \<noteq> Fin 0 \<and> n \<noteq> NaN)"
| "truthy (Str s) = (s \<noteq> [])"
| "truthy (Arr xs) = True"
| "truthy (Obj kvs) = True"

fun typeof :: "jsval \<Rightarrow> string" where
  "typeof Undefined = ''undefined''"
| "typeof Null = ''object''"
| "typeof (Bool b) = ''boolean''"
| "typeof (Num n) = ''number''"
| "typeof (Str s) = ''string''"
| "typeof (Arr xs) = ''object''"
| "typeof (Obj kvs) = ''object''"

text \<open>\<^verbatim>\<open>a ?? b\<close> and \<^verbatim>\<open>a || b\<close>.\<close>

definition nullish :: "jsval \<Rightarrow> bool" where
  "nullish v = (v = Undefined \<or> v = Null)"

definition coalesce :: "jsval \<Rightarrow> jsval \<Rightarrow> jsval" where
  "coalesce a b = (if nullish a then b else a)"

definition or_else :: "jsval \<Rightarrow> jsval \<Rightarrow> jsval" where
  "or_else a b = (if truthy a then a else b)"

text \<open>
  A property read \<^verbatim>\<open>v.k\<close>. On \<^verbatim>\<open>null\<close> and \<^verbatim>\<open>undefined\<close> it throws.
  On an object parsed from JSON it is the own property, \<^verbatim>\<open>undefined\<close> when there
  is none; on a string, a number, a boolean or an array it is \<^verbatim>\<open>undefined\<close> for
  every name the code reads as data (none of them is a property of a prototype). An
  object is the list of its own properties in insertion order, each key once (the first
  binding is the one read).
\<close>

fun property :: "jsval \<Rightarrow> string \<Rightarrow> jsval" where
  "property (Obj kvs) k = (case map_of kvs k of None \<Rightarrow> Undefined | Some v \<Rightarrow> v)"
| "property v k = Undefined"

definition get :: "jsval \<Rightarrow> string \<Rightarrow> js_error + jsval" where
  "get v k =
     (if nullish v
      then Inl (TypeError (''Cannot read properties of '' @
                 (if v = Null then ''null'' else ''undefined'') @ '' (reading '' @ [CHR 39] @ k @ [CHR 39] @ '')''))
      else Inr (property v k))"

text \<open>\<^verbatim>\<open>ToNumber\<close> and \<^verbatim>\<open>ToString\<close>; on an array or object they go through
  its primitive, which can throw.\<close>

fun ToNumber :: "engine \<Rightarrow> jsval \<Rightarrow> js_error + jsnum" where
  "ToNumber E Undefined = Inr NaN"
| "ToNumber E Null = Inr (Fin 0)"
| "ToNumber E (Bool b) = Inr (Fin (if b then 1 else 0))"
| "ToNumber E (Num n) = Inr n"
| "ToNumber E (Str s) = Inr (StringToNumber E s)"
| "ToNumber E v = and_then (ObjectToPrimitive E v) (\<lambda>s. Inr (StringToNumber E s))"

fun ToString :: "engine \<Rightarrow> jsval \<Rightarrow> js_error + string" where
  "ToString E Undefined = Inr ''undefined''"
| "ToString E Null = Inr ''null''"
| "ToString E (Bool b) = Inr (if b then ''true'' else ''false'')"
| "ToString E (Num n) = Inr (NumberToString E n)"
| "ToString E (Str s) = Inr s"
| "ToString E v = ObjectToPrimitive E v"

text \<open>
  \<^verbatim>\<open>x < y\<close> on numbers: false as soon as one side is \<open>NaN\<close>. The code compares
  a value with a numeric literal only, so the relational operator converts its left
  operand with \<^verbatim>\<open>ToNumber\<close> (two strings are never compared).
\<close>

fun num_lt :: "jsnum \<Rightarrow> jsnum \<Rightarrow> bool" where
  "num_lt NaN y = False"
| "num_lt x NaN = False"
| "num_lt PosInf y = False"
| "num_lt x NegInf = False"
| "num_lt NegInf y = True"
| "num_lt x PosInf = True"
| "num_lt (Fin a) (Fin b) = (a < b)"

definition js_lt :: "engine \<Rightarrow> jsval \<Rightarrow> real \<Rightarrow> js_error + bool" where
  "js_lt E v c = and_then (ToNumber E v) (\<lambda>n. Inr (num_lt n (Fin c)))"

definition js_gt :: "engine \<Rightarrow> jsval \<Rightarrow> real \<Rightarrow> js_error + bool" where
  "js_gt E v c = and_then (ToNumber E v) (\<lambda>n. Inr (num_lt (Fin c) n))"

text \<open>\<^verbatim>\<open>v < lo || v > hi\<close>: the right comparison is evaluated only when the left
  one is false.\<close>

definition out_of_range :: "engine \<Rightarrow> jsval \<Rightarrow> real \<Rightarrow> real \<Rightarrow> js_error + bool" where
  "out_of_range E v lo hi =
     and_then (js_lt E v lo) (\<lambda>below. if below then Inr True else js_gt E v hi)"

text \<open>The decimal digits of a natural number, as a template literal renders an HTTP
  status.\<close>

fun string_of_nat :: "nat \<Rightarrow> string" where
  "string_of_nat n =
     (if n < 10 then [''0123456789'' ! n]
      else string_of_nat (n div 10) @ [''0123456789'' ! (n mod 10)])"

text \<open>
  \<^verbatim>\<open>s.trim()\<close> on the value bound to the name \<open>who\<close>: a method of strings
  only.
\<close>

definition trim_call :: "engine \<Rightarrow> string \<Rightarrow> jsval \<Rightarrow> js_error + jsval" where
  "trim_call E who v =
     (case v of
        Str s \<Rightarrow> Inr (Str (String_trim E s))
      | Undefined \<Rightarrow> Inl (TypeError ''Cannot read properties of undefined (reading 'trim')'')
      | Null \<Rightarrow> Inl (TypeError ''Cannot read properties of null (reading 'trim')'')
      | _ \<Rightarrow> Inl (TypeError (who @ ''.trim is not a function'')))"

text \<open>Array methods with a callback that may throw: the first exception ends the
  traversal.\<close>

fun filter_js :: "('a \<Rightarrow> js_error + bool) \<Rightarrow> 'a list \<Rightarrow> js_error + 'a list" where
  "filter_js p [] = Inr []"
| "filter_js p (x # xs) =
     and_then (p x) (\<lambda>keep. and_then (filter_js p xs) (\<lambda>rest. Inr (if keep then x # rest else rest)))"

fun map_js :: "('a \<Rightarrow> js_error + 'b) \<Rightarrow> 'a list \<Rightarrow> js_error + 'b list" where
  "map_js f [] = Inr []"
| "map_js f (x # xs) = and_then (f x) (\<lambda>y. and_then (map_js f xs) (\<lambda>rest. Inr (y # rest)))"

text \<open>The receiver of \<^verbatim>\<open>.filter(...)\<close>: an array, or the call throws.\<close>

definition as_array :: "string \<Rightarrow> jsval \<Rightarrow> js_error + jsval list" where
  "as_array who v =
     (case v of
        Arr xs \<Rightarrow> Inr xs
      | _ \<Rightarrow> Inl (TypeError (who @ ''.filter is not a function'')))"

text \<open>
  \<^verbatim>\<open>Array.prototype.sort(cmp)\<close> is stable and, for a consistent comparator,
  returns the one stable ordering; insertion from the right computes it.
\<close>

fun insert_by :: "('a \<Rightarrow> 'a \<Rightarrow> int) \<Rightarrow> 'a \<Rightarrow> 'a list \<Rightarrow> 'a list" where
  "insert_by cmp x [] = [x]"
| "insert_by cmp x (y # ys) = (if cmp x y \<le> 0 then x # y # ys else y # insert_by cmp x ys)"

definition sort_by :: "('a \<Rightarrow> 'a \<Rightarrow> int) \<Rightarrow> 'a list \<Rightarrow> 'a list" where
  "sort_by cmp xs = foldr (insert_by cmp) xs []"

section \<open>Configuration and the remote call\<close>

text \<open>\<^verbatim>\<open>CONFIG\<close> (lines 20-24); \<^verbatim>\<open>validateEnvironment\<close> has made both
  settings non-empty strings before any call is served.\<close>

record config =
  baseUrl :: string
  apiToken :: string
  timeout :: nat

text \<open>
  What \<^verbatim>\<open>axios.get\<close> rejects with: \<^verbatim>\<open>error.response\<close> (status and body)
  when the remote answered, \<^verbatim>\<open>error.request\<close> when a request was sent, and
  \<^verbatim>\<open>error.message\<close>.
\<close>

record response =
  status :: nat
  response_data :: jsval

record axios_error =
  response :: "response option"
  request :: bool
  axios_message :: string

text \<open>The one outbound GET (lines 93-101) and the network's answer to it: the body
  of a 2xx response, or the rejection.\<close>

record http_get =
  url :: string
  params :: "(string \<times> jsval) list"
  accept :: string
  username :: string
  password :: string
  timeout_ms :: nat

type_synonym remote = "http_get \<Rightarrow> axios_error + jsval"

text \<open>\<^verbatim>\<open>data?.message || fallback\<close> (lines 76, 80, 82).\<close>

definition data_message :: "jsval \<Rightarrow> jsval" where
  "data_message d = (if nullish d then Undefined else property d ''message'')"

text \<open>\<^verbatim>\<open>formatError\<close> (lines 67-89). A template literal converts the interpolated
  value with \<^verbatim>\<open>ToString\<close>.\<close>

definition formatError :: "engine \<Rightarrow> config \<Rightarrow> axios_error \<Rightarrow> js_error + string" where
  "formatError E C error =
     (case response error of
        Some r \<Rightarrow>
          (if status r = 401 then
             Inr ''Authentication failed. Check API_TOKEN in MCP configuration.''
           else if status r = 400 then
             and_then (ToString E (or_else (data_message (response_data r)) (Str ''Check query syntax and parameters'')))
               (\<lambda>detail. Inr (''Invalid query: '' @ detail))
           else if status r = 404 then
             Inr ''Endpoint not found. Check BASE_URL in MCP configuration.''
           else if status r = 500 then
             and_then (ToString E (or_else (data_message (response_data r)) (Str (axios_message error))))
               (\<lambda>detail. Inr (''Graylog server error: '' @ detail))
           else
             and_then (ToString E (or_else (data_message (response_data r)) (Str (axios_message error))))
               (\<lambda>detail. Inr (''Graylog API error ('' @ string_of_nat (status r) @ ''): '' @ detail)))
      | None \<Rightarrow>
          (if request error then
             Inr (''Cannot reach Graylog at '' @ baseUrl C @ ''. Check network connectivity.'')
           else Inr (axios_message error)))"

text \<open>\<^verbatim>\<open>graylogRequest\<close> (lines 91-110); the log line to stderr is not modelled.\<close>

definition graylogRequest ::
  "engine \<Rightarrow> config \<Rightarrow> remote \<Rightarrow> string \<Rightarrow> (string \<times> jsval) list \<Rightarrow> js_error + jsval" where
  "graylogRequest E C net endpoint ps =
     (case net \<lparr>url = baseUrl C @ endpoint, params = ps, accept = ''application/json'',
                 username = apiToken C, password = ''token'', timeout_ms = timeout C\<rparr> of
        Inr body \<Rightarrow> Inr body
      | Inl error \<Rightarrow> and_then (formatError E C error) (\<lambda>m. Inl (Error m)))"

section \<open>Timestamp validation\<close>

text \<open>
  The time value of \<^verbatim>\<open>new Date(v)\<close>, \<open>None\<close> for an Invalid Date: a string
  (also the primitive of an array or object) is parsed, any other value is converted to
  a number and clipped.
\<close>

fun TimeClip :: "jsnum \<Rightarrow> int option" where
  "TimeClip (Fin x) =
     (if \<bar>x\<bar> > 8640000000000000 then None
      else Some (if 0 \<le> x then \<lfloor>x\<rfloor> else \<lceil>x\<rceil>))"
| "TimeClip n = None"

fun new_Date :: "engine \<Rightarrow> jsval \<Rightarrow> js_error + int option" where
  "new_Date E (Str s) = Inr (Date_parse E s)"
| "new_Date E (Arr xs) = and_then (ObjectToPrimitive E (Arr xs)) (\<lambda>s. Inr (Date_parse E s))"
| "new_Date E (Obj kvs) = and_then (ObjectToPrimitive E (Obj kvs)) (\<lambda>s. Inr (Date_parse E s))"
| "new_Date E v = and_then (ToNumber E v) (\<lambda>n. Inr (TimeClip n))"

text \<open>\<^verbatim>\<open>dateString.includes('T')\<close>: a substring test on a string, a membership
  test on an array, not a function on anything else.\<close>

fun includes_T :: "jsval \<Rightarrow> js_error + bool" where
  "includes_T (Str s) = Inr (CHR ''T'' \<in> set s)"
| "includes_T (Arr xs) = Inr (Str ''T'' \<in> set xs)"
| "includes_T v = Inl (TypeError ''dateString.includes is not a function'')"

text \<open>\<^verbatim>\<open>isValidISO8601\<close> (lines 45-49); \<^verbatim>\<open>date instanceof Date\<close> always
  holds.\<close>

definition isValidISO8601 :: "engine \<Rightarrow> jsval \<Rightarrow> js_error + bool" where
  "isValidISO8601 E dateString =
     (if \<not> truthy dateString then Inr False
      else and_then (new_Date E dateString)
             (\<lambda>date. if date = None then Inr False else includes_T dateString))"

text \<open>\<^verbatim>\<open>fromDate >= toDate\<close> on two dates compares their time values; it is false
  when one is \<open>NaN\<close>.\<close>

definition date_ge :: "int option \<Rightarrow> int option \<Rightarrow> bool" where
  "date_ge a b = (case (a, b) of (Some x, Some y) \<Rightarrow> y \<le> x | _ \<Rightarrow> False)"

text \<open>\<^verbatim>\<open>validateTimeRange\<close> (lines 51-65).\<close>

definition validateTimeRange :: "engine \<Rightarrow> jsval \<Rightarrow> jsval \<Rightarrow> js_error + unit" where
  "validateTimeRange E from to =
     and_then (isValidISO8601 E from) (\<lambda>from_ok.
       if \<not> from_ok then
         Inl (Error ''Invalid 'from' timestamp. Use ISO 8601 format (e.g., '2025-09-29T17:57:26.568Z')'')
       else and_then (isValidISO8601 E to) (\<lambda>to_ok.
         if \<not> to_ok then
           Inl (Error ''Invalid 'to' timestamp. Use ISO 8601 format (e.g., '2025-09-30T12:36:20.910Z')'')
         else and_then (new_Date E from) (\<lambda>fromDate.
              and_then (new_Date E to) (\<lambda>toDate.
                if date_ge fromDate toDate
                then Inl (Error '''from' timestamp must be before 'to' timestamp'')
                else Inr ()))))"

section \<open>Parameter validation and request parameters\<close>

text \<open>\<^verbatim>\<open>const { query, ... } = args\<close> throws when \<^verbatim>\<open>args\<close> is
  \<^verbatim>\<open>undefined\<close> or \<^verbatim>\<open>null\<close> (a call may come without arguments).\<close>

definition destructure :: "jsval \<Rightarrow> js_error + unit" where
  "destructure args =
     (if nullish args
      then Inl (TypeError (''Cannot destructure property 'query' of 'args' as it is '' @
                 (if args = Null then ''null'' else ''undefined'') @ ''.''))
      else Inr ())"

text \<open>\<^verbatim>\<open>!query || typeof query !== 'string' || !query.trim()\<close> (lines 256, 316); the
  last test runs on a string only.\<close>

definition query_invalid :: "engine \<Rightarrow> jsval \<Rightarrow> bool" where
  "query_invalid E query =
     (\<not> truthy query \<or> typeof query \<noteq> ''string'' \<or>
      (case query of Str s \<Rightarrow> \<not> truthy (Str (String_trim E s)) | _ \<Rightarrow> False))"

text \<open>\<^verbatim>\<open>streamId !== undefined && typeof streamId !== 'string'\<close> (lines 262, 326).\<close>

definition streamId_invalid :: "jsval \<Rightarrow> bool" where
  "streamId_invalid streamId = (streamId \<noteq> Undefined \<and> typeof streamId \<noteq> ''string'')"

text \<open>\<^verbatim>\<open>if (streamId) params.filter = `streams:${streamId}`\<close> (lines 279-281,
  342-344): the entry added to the request parameters, if any.\<close>

definition stream_filter :: "engine \<Rightarrow> jsval \<Rightarrow> js_error + (string \<times> jsval) list" where
  "stream_filter E streamId =
     (if truthy streamId
      then and_then (ToString E streamId) (\<lambda>s. Inr [(''filter'', Str (''streams:'' @ s))])
      else Inr [])"

text \<open>
  \<^verbatim>\<open>searchLogsAbsolute\<close>, lines 252-281: the defaults, the checks in the order of
  the code, and the parameters of the request. \<open>Inr\<close> is "validation succeeded".
\<close>

definition absolute_params :: "engine \<Rightarrow> jsval \<Rightarrow> js_error + (string \<times> jsval) list" where
  "absolute_params E args =
     and_then (destructure args) (\<lambda>_.
       let query = property args ''query'';
           from = property args ''from'';
           to = property args ''to'';
           streamId = property args ''streamId'';
           limit = coalesce (property args ''limit'') (Num (Fin 50))
       in
       if query_invalid E query then
         Inl (Error '''query' parameter is required and must be a non-empty string'')
       else and_then (validateTimeRange E from to) (\<lambda>_.
         if streamId_invalid streamId then Inl (Error '''streamId' must be a string'')
         else and_then (out_of_range E limit 1 1000) (\<lambda>bad.
           if bad then Inl (Error '''limit' must be between 1 and 1000'')
           else and_then (trim_call E ''query'' query) (\<lambda>q.
                and_then (trim_call E ''from'' from) (\<lambda>f.
                and_then (trim_call E ''to'' to) (\<lambda>t.
                and_then (stream_filter E streamId) (\<lambda>flt.
                  Inr ([(''query'', q), (''from'', f), (''to'', t), (''limit'', limit),
                        (''fields'', Str ''message,timestamp,source,level'')] @ flt))))))))"

text \<open>\<^verbatim>\<open>searchLogsRelative\<close>, lines 311-344.\<close>

definition relative_params :: "engine \<Rightarrow> jsval \<Rightarrow> js_error + (string \<times> jsval) list" where
  "relative_params E args =
     and_then (destructure args) (\<lambda>_.
       let query = property args ''query'';
           streamId = property args ''streamId'';
           rangeSeconds = coalesce (property args ''rangeSeconds'') (Num (Fin 900));
           limit = coalesce (property args ''limit'') (Num (Fin 50))
       in
       if query_invalid E query then
         Inl (Error '''query' parameter is required and must be a non-empty string'')
       else and_then (out_of_range E rangeSeconds 1 86400) (\<lambda>bad_range.
         if bad_range then Inl (Error '''rangeSeconds' must be between 1 and 86400 (24 hours)'')
         else if streamId_invalid streamId then Inl (Error '''streamId' must be a string'')
         else and_then (out_of_range E limit 1 1000) (\<lambda>bad.
           if bad then Inl (Error '''limit' must be between 1 and 1000'')
           else and_then (trim_call E ''query'' query) (\<lambda>q.
                and_then (stream_filter E streamId) (\<lambda>flt.
                  Inr ([(''query'', q), (''range'', rangeSeconds), (''limit'', limit),
                        (''fields'', Str ''message,timestamp,source,level'')] @ flt))))))"

section \<open>Response shaping\<close>

text \<open>\<^verbatim>\<open>m => m && m.message\<close>, as \<^verbatim>\<open>filter\<close> reads it (by truthiness), and the
  projection \<^verbatim>\<open>m => ({timestamp: m.message.timestamp, ...})\<close> (lines 291-298 and
  354-361).\<close>

definition keep_message :: "jsval \<Rightarrow> js_error + bool" where
  "keep_message m =
     (if truthy m then and_then (get m ''message'') (\<lambda>payload. Inr (truthy payload))
      else Inr False)"

definition nested :: "jsval \<Rightarrow> string \<Rightarrow> js_error + jsval" where
  "nested m k = and_then (get m ''message'') (\<lambda>payload. get payload k)"

definition project_message :: "jsval \<Rightarrow> js_error + jsval" where
  "project_message m =
     and_then (nested m ''timestamp'') (\<lambda>ts.
     and_then (nested m ''message'') (\<lambda>msg.
     and_then (nested m ''source'') (\<lambda>src.
     and_then (nested m ''level'') (\<lambda>lvl.
       Inr (Obj [(''timestamp'', ts), (''message'', msg), (''source'', src), (''level'', lvl)])))))"

definition shape_messages :: "jsval \<Rightarrow> js_error + jsval" where
  "shape_messages data =
     and_then (get data ''messages'') (\<lambda>ms.
     and_then (as_array ''(data.messages || [])'' (or_else ms (Arr []))) (\<lambda>xs.
     and_then (filter_js keep_message xs) (\<lambda>kept.
     and_then (map_js project_message kept) (\<lambda>out. Inr (Arr out)))))"

text \<open>The \<^verbatim>\<open>result\<close> objects of the two searches (lines 287-299 and 350-362).\<close>

definition absolute_result :: "jsval \<Rightarrow> jsval \<Rightarrow> jsval \<Rightarrow> js_error + jsval" where
  "absolute_result data from to =
     and_then (get data ''total_results'') (\<lambda>total.
     and_then (get data ''built_query'') (\<lambda>built.
     and_then (shape_messages data) (\<lambda>msgs.
       Inr (Obj [(''total_results'', or_else total (Num (Fin 0))), (''query'', built),
                 (''time_range'', Obj [(''from'', from), (''to'', to)]),
                 (''messages'', msgs)]))))"

definition relative_result :: "engine \<Rightarrow> jsval \<Rightarrow> jsval \<Rightarrow> js_error + jsval" where
  "relative_result E data rangeSeconds =
     and_then (get data ''total_results'') (\<lambda>total.
     and_then (get data ''built_query'') (\<lambda>built.
     and_then (ToString E rangeSeconds) (\<lambda>secs.
     and_then (shape_messages data) (\<lambda>msgs.
       Inr (Obj [(''total_results'', or_else total (Num (Fin 0))), (''query'', built),
                 (''time_range'', Str (''Last '' @ secs @ '' seconds'')),
                 (''messages'', msgs)])))))"

text \<open>\<^verbatim>\<open>listStreams\<close>, lines 375-388. The comparator
  \<^verbatim>\<open>(a, b) => a.title.localeCompare(b.title)\<close> is not called on fewer than two
  entries and cannot throw when every title is a string.\<close>

definition keep_stream :: "jsval \<Rightarrow> js_error + bool" where
  "keep_stream s = and_then (get s ''is_default'') (\<lambda>d. Inr (\<not> truthy d))"

fun the_string :: "jsval \<Rightarrow> string" where
  "the_string (Str s) = s"
| "the_string v = []"

definition title_compare :: "engine \<Rightarrow> jsval \<Rightarrow> jsval \<Rightarrow> int" where
  "title_compare E a b =
     localeCompare E (the_string (property a ''title'')) (the_string (property b ''title''))"

definition sort_streams :: "engine \<Rightarrow> jsval list \<Rightarrow> js_error + jsval list" where
  "sort_streams E xs =
     (if length xs < 2 then Inr xs
      else if list_all (\<lambda>s. typeof (property s ''title'') = ''string'') xs
      then Inr (sort_by (title_compare E) xs)
      else Array_sort_other E xs)"

definition project_stream :: "jsval \<Rightarrow> js_error + jsval" where
  "project_stream s =
     and_then (get s ''id'') (\<lambda>i.
     and_then (get s ''title'') (\<lambda>t.
     and_then (get s ''description'') (\<lambda>d.
     and_then (get s ''disabled'') (\<lambda>dis.
       Inr (Obj [(''id'', i), (''title'', t), (''description'', or_else d (Str [])),
                 (''disabled'', dis)])))))"

definition streams_result :: "engine \<Rightarrow> jsval \<Rightarrow> js_error + jsval" where
  "streams_result E data =
     and_then (get data ''streams'') (\<lambda>ss.
     and_then (as_array ''(data.streams || [])'' (or_else ss (Arr []))) (\<lambda>xs.
     and_then (filter_js keep_stream xs) (\<lambda>kept.
     and_then (sort_streams E kept) (\<lambda>sorted.
     and_then (map_js project_stream sorted) (\<lambda>streams.
       Inr (Obj [(''total'', Num (Fin (real (length streams)))), (''streams'', Arr streams)]))))))"

text \<open>\<^verbatim>\<open>getSystemInfo\<close>, lines 401-409.\<close>

definition system_result :: "jsval \<Rightarrow> js_error + jsval" where
  "system_result data =
     and_then (map_js (\<lambda>k. and_then (get data k) (\<lambda>v. Inr (k, v)))
                 [''version'', ''codename'', ''cluster_id'', ''node_id'', ''hostname'',
                  ''is_processing'', ''timezone''])
       (\<lambda>fields. Inr (Obj fields))"

section \<open>The four operations and the dispatcher\<close>

record content_item =
  type :: string
  "text" :: string

record envelope =
  content :: "content_item list"
  isError :: "bool option"

text \<open>\<^verbatim>\<open>{content: [{type: "text", text: JSON.stringify(result, null, 2)}]}\<close>; a
  success carries no \<^verbatim>\<open>isError\<close>.\<close>

definition json_envelope :: "engine \<Rightarrow> jsval \<Rightarrow> envelope" where
  "json_envelope E result =
     \<lparr>content = [\<lparr>type = ''text'', text = JSON_stringify E result\<rparr>], isError = None\<rparr>"

definition searchLogsAbsolute :: "engine \<Rightarrow> config \<Rightarrow> remote \<Rightarrow> jsval \<Rightarrow> js_error + envelope" where
  "searchLogsAbsolute E C net args =
     and_then (absolute_params E args) (\<lambda>ps.
     and_then (graylogRequest E C net ''/api/search/universal/absolute'' ps) (\<lambda>data.
     and_then (absolute_result data (property args ''from'') (property args ''to'')) (\<lambda>result.
       Inr (json_envelope E result))))"

definition searchLogsRelative :: "engine \<Rightarrow> config \<Rightarrow> remote \<Rightarrow> jsval \<Rightarrow> js_error + envelope" where
  "searchLogsRelative E C net args =
     and_then (relative_params E args) (\<lambda>ps.
     and_then (graylogRequest E C net ''/api/search/universal/relative'' ps) (\<lambda>data.
     and_then (relative_result E data (coalesce (property args ''rangeSeconds'') (Num (Fin 900))))
       (\<lambda>result. Inr (json_envelope E result))))"

definition listStreams :: "engine \<Rightarrow> config \<Rightarrow> remote \<Rightarrow> js_error + envelope" where
  "listStreams E C net =
     and_then (graylogRequest E C net ''/api/streams'' []) (\<lambda>data.
     and_then (streams_result E data) (\<lambda>result. Inr (json_envelope E result)))"

definition getSystemInfo :: "engine \<Rightarrow> config \<Rightarrow> remote \<Rightarrow> js_error + envelope" where
  "getSystemInfo E C net =
     and_then (graylogRequest E C net ''/api/system'' []) (\<lambda>data.
     and_then (system_result data) (\<lambda>result. Inr (json_envelope E result)))"

text \<open>
  The \<^verbatim>\<open>CallToolRequestSchema\<close> handler (lines 215-244). The transport has checked
  the request against the schema: \<^verbatim>\<open>params.name\<close> is a string, and
  \<^verbatim>\<open>params.arguments\<close> an object or absent. \<open>tool_switch\<close> is the body of the
  \<^verbatim>\<open>try\<close>, \<open>handler\<close> adds the \<^verbatim>\<open>catch\<close>.
\<close>

record request =
  name :: string
  arguments :: jsval

definition tool_switch :: "engine \<Rightarrow> config \<Rightarrow> remote \<Rightarrow> request \<Rightarrow> js_error + envelope" where
  "tool_switch E C net req =
     (if name req = ''search_logs_absolute'' then searchLogsAbsolute E C net (arguments req)
      else if name req = ''search_logs_relative'' then searchLogsRelative E C net (arguments req)
      else if name req = ''list_streams'' then listStreams E C net
      else if name req = ''get_system_info'' then getSystemInfo E C net
      else Inl (Error (''Unknown tool: '' @ name req)))"

definition handler :: "engine \<Rightarrow> config \<Rightarrow> remote \<Rightarrow> request \<Rightarrow> envelope" where
  "handler E C net req =
     (case tool_switch E C net req of
        Inr result \<Rightarrow> result
      | Inl error \<Rightarrow>
          \<lparr>content = [\<lparr>type = ''text'', text = ''Error: '' @ message error\<rparr>],
           isError = Some True\<rparr>)"

section \<open>A reference engine for concrete runs\<close>

text \<open>
  A small engine on which the definitions above are run at concrete inputs. It is exact
  on what the runs below give it: ASCII strings, whole numbers, the timestamps of the
  repository's tests. The primitive of an object and the rendering of a result, which no
  run reads, are placeholders.
\<close>

definition ascii_space :: "char \<Rightarrow> bool" where
  "ascii_space c = (c \<in> set [CHR '' '', CHR 0x09, CHR 0x0A, CHR 0x0B, CHR 0x0C, CHR 0x0D])"

definition ascii_trim :: "string \<Rightarrow> string" where
  "ascii_trim s = rev (dropWhile ascii_space (rev (dropWhile ascii_space s)))"

definition digits_to_number :: "string \<Rightarrow> jsnum" where
  "digits_to_number s =
     (if ascii_trim s = [] then Fin 0
      else if list_all (\<lambda>c. c \<in> set ''0123456789'') (ascii_trim s)
      then Fin (real (foldl (\<lambda>n c. 10 * n + length (takeWhile (\<lambda>d. d \<noteq> c) ''0123456789'')) 0 (ascii_trim s)))
      else NaN)"

definition whole_to_string :: "jsnum \<Rightarrow> string" where
  "whole_to_string n =
     (case n of
        Fin x \<Rightarrow> (if x < 0 then ''-'' else []) @ string_of_nat (nat \<lfloor>\<bar>x\<bar>\<rfloor>)
      | NaN \<Rightarrow> ''NaN''
      | PosInf \<Rightarrow> ''Infinity''
      | NegInf \<Rightarrow> ''-Infinity'')"

definition test_dates :: "(string \<times> int) list" where
  "test_dates =
     [(''2025-09-29T17:57:26.568Z'', 1759168646568),
      (''2025-09-30T12:36:20.910Z'', 1759235780910),
      (''2025-01-01T00:00:00Z'', 1735689600000),
      (''2025-01-02T00:00:00Z'', 1735776000000),
      (''2025-09-29'', 1759104000000)]"

definition codepoint_compare :: "string \<Rightarrow> string \<Rightarrow> int" where
  "codepoint_compare a b = (if a < b then - 1 else if a = b then 0 else 1)"

definition reference_engine :: engine where
  "reference_engine =
     \<lparr>String_trim = ascii_trim,
      StringToNumber = digits_to_number,
      NumberToString = whole_to_string,
      ObjectToPrimitive = (\<lambda>v. case v of Arr [] \<Rightarrow> Inr [] | _ \<Rightarrow> Inr ''[object Object]''),
      Date_parse = map_of test_dates,
      localeCompare = codepoint_compare,
      Array_sort_other = (\<lambda>xs. Inl (TypeError ''a.title.localeCompare is not a function'')),
      JSON_stringify = (\<lambda>v. ''{}'')\<rparr>"

definition test_config :: config where
  "test_config = \<lparr>baseUrl = ''https://graylog.example.com'', apiToken = ''t0ken'', timeout = 30000\<rparr>"

text \<open>Arguments of the two searches that pass every check, to which a run adds the
  optional fields it is about.\<close>

definition absolute_args :: "(string \<times> jsval) list \<Rightarrow> jsval" where
  "absolute_args extra =
     Obj ([(''query'', Str ''level:ERROR''), (''from'', Str ''2025-09-29T17:57:26.568Z''),
           (''to'', Str ''2025-09-30T12:36:20.910Z'')] @ extra)"

definition relative_args :: "(string \<times> jsval) list \<Rightarrow> jsval" where
  "relative_args extra = Obj ((''query'', Str ''level:ERROR'') # extra)"

text \<open>A search response with malformed entries around one well-formed message, and a
  stream list with the default stream in it.\<close>

definition test_messages :: "jsval list" where
  "test_messages =
     [Null, Undefined, Obj [], Obj [(''message'', Null)],
      Obj [(''message'', Obj [(''timestamp'', Str ''2025-10-23T12:00:00Z''),
                              (''message'', Str ''Valid log''), (''source'', Str ''nexus''),
                              (''level'', Str ''INFO'')])]]"

definition test_search_response :: jsval where
  "test_search_response =
     Obj [(''total_results'', Num (Fin 5)), (''built_query'', Str ''level:ERROR''),
          (''messages'', Arr test_messages)]"

definition test_streams :: "jsval list" where
  "test_streams =
     [Obj [(''id'', Str ''2''), (''title'', Str ''beta''), (''disabled'', Bool False),
           (''is_default'', Bool False)],
      Obj [(''id'', Str ''0''), (''title'', Str ''All messages''), (''is_default'', Bool True)],
      Obj [(''id'', Str ''1''), (''title'', Str ''alpha''), (''description'', Str ''first''),
           (''disabled'', Bool True)]]"

lemma and_then_Inr [simp]: "and_then (Inr x) f = f x"
  by (simp add: and_then_def)

lemma and_then_Inl [simp]: "and_then (Inl e) f = Inl e"
  by (simp add: and_then_def)

section \<open>Properties\<close>

subsection \<open>Time-range validation\<close>

lemma isValidISO8601_Str:
  "isValidISO8601 E (Str s) = Inr (Date_parse E s \<noteq> None \<and> CHR ''T'' \<in> set s)"
  by (auto simp: isValidISO8601_def)

text \<open>
  C3. For every pair of strings \<open>f\<close>, \<open>t\<close> and every engine,
  \<^verbatim>\<open>validateTimeRange(f, t)\<close> returns normally exactly when both strings parse to a
  valid date, \<open>f\<close>'s strictly before \<open>t\<close>'s, and both contain the character
  \<open>T\<close>. The bare date \<open>2025-09-29\<close> is rejected as \<open>from\<close> whatever it parses
  to, and equal \<open>from\<close> and \<open>to\<close> are rejected.
\<close>

theorem validateTimeRange_strings:
  "(validateTimeRange E (Str f) (Str t) = Inr () \<longleftrightarrow>
      (\<exists>a b. Date_parse E f = Some a \<and> Date_parse E t = Some b \<and> a < b)
      \<and> CHR ''T'' \<in> set f \<and> CHR ''T'' \<in> set t)
   \<and> (\<exists>m. validateTimeRange E (Str ''2025-09-29'') (Str t) = Inl (Error m))
   \<and> (\<exists>m. validateTimeRange E (Str f) (Str f) = Inl (Error m))"
proof (intro conjI)
  show "validateTimeRange E (Str f) (Str t) = Inr () \<longleftrightarrow>
      (\<exists>a b. Date_parse E f = Some a \<and> Date_parse E t = Some b \<and> a < b)
      \<and> CHR ''T'' \<in> set f \<and> CHR ''T'' \<in> set t"
    by (cases "Date_parse E f"; cases "Date_parse E t")
       (auto simp: validateTimeRange_def isValidISO8601_Str date_ge_def)
  show "\<exists>m. validateTimeRange E (Str ''2025-09-29'') (Str t) = Inl (Error m)"
    by (simp add: validateTimeRange_def isValidISO8601_Str)
  show "\<exists>m. validateTimeRange E (Str f) (Str f) = Inl (Error m)"
    by (cases "Date_parse E f")
       (auto simp: validateTimeRange_def isValidISO8601_Str date_ge_def)
qed

theorem validateTimeRange_strings_witness:
  "validateTimeRange reference_engine (Str ''2025-09-29T17:57:26.568Z'') (Str ''2025-09-30T12:36:20.910Z'') = Inr ()
   \<and> Date_parse reference_engine ''2025-09-29T17:57:26.568Z'' = Some 1759168646568
   \<and> Date_parse reference_engine ''2025-09-30T12:36:20.910Z'' = Some 1759235780910
   \<and> validateTimeRange reference_engine (Str ''2025-09-30T12:36:20.910Z'') (Str ''2025-09-29T17:57:26.568Z'') \<noteq> Inr ()
   \<and> Date_parse reference_engine ''2025-09-29'' = Some 1759104000000
   \<and> validateTimeRange reference_engine (Str ''2025-09-29'') (Str ''2025-09-30T12:36:20.910Z'') \<noteq> Inr ()"
  using validateTimeRange_strings [of reference_engine "''2025-09-29T17:57:26.568Z''" "''2025-09-30T12:36:20.910Z''"]
        validateTimeRange_strings [of reference_engine "''2025-09-30T12:36:20.910Z''" "''2025-09-29T17:57:26.568Z''"]
        validateTimeRange_strings [of reference_engine "''2025-09-29''" "''2025-09-30T12:36:20.910Z''"]
  by (simp add: reference_engine_def test_dates_def)

subsection \<open>Remote-failure normalization\<close>



subsection \<open>Parameter validation\<close>

text \<open>What the two validations compute once the checks before a given one have passed, and
  that a failing check fails the validation whatever the others do.\<close>

lemma out_of_range_ToNumber:
  "ToNumber E v = Inr n \<Longrightarrow> out_of_range E v lo hi = Inr (num_lt n (Fin lo) \<or> num_lt (Fin hi) n)"
  by (simp add: out_of_range_def js_lt_def js_gt_def)

lemma stream_filter_valid:
  "\<not> streamId_invalid sid \<Longrightarrow>
   stream_filter E sid =
     Inr (if truthy sid then [(''filter'', Str (''streams:'' @ the_string sid))] else [])"
  by (cases sid) (simp_all add: streamId_invalid_def stream_filter_def)

lemma query_valid_Str: "\<not> query_invalid E q \<Longrightarrow> \<exists>s. q = Str s"
  by (cases q) (simp_all add: query_invalid_def)

lemma absolute_params_checked:
  assumes "\<not> nullish args" and "\<not> query_invalid E (property args ''query'')"
    and "property args ''from'' = Str f" and "property args ''to'' = Str t"
    and "validateTimeRange E (Str f) (Str t) = Inr ()"
  shows "absolute_params E args =
     (if streamId_invalid (property args ''streamId'') then Inl (Error '''streamId' must be a string'')
      else and_then (out_of_range E (coalesce (property args ''limit'') (Num (Fin 50))) 1 1000) (\<lambda>bad.
       if bad then Inl (Error '''limit' must be between 1 and 1000'')
       else Inr ([(''query'', Str (String_trim E (the_string (property args ''query'')))),
                  (''from'', Str (String_trim E f)), (''to'', Str (String_trim E t)),
                  (''limit'', coalesce (property args ''limit'') (Num (Fin 50))),
                  (''fields'', Str ''message,timestamp,source,level'')]
                 @ (if truthy (property args ''streamId'')
                    then [(''filter'', Str (''streams:'' @ the_string (property args ''streamId'')))]
                    else []))))"
proof -
  from assms(2) obtain q where q: "property args ''query'' = Str q"
    using query_valid_Str by blast
  show ?thesis
    using assms q
    by (auto simp: absolute_params_def destructure_def Let_def trim_call_def stream_filter_valid
             and_then_def split: sum.splits)
qed

lemma relative_params_checked:
  assumes "\<not> nullish args" and "\<not> query_invalid E (property args ''query'')"
  shows "relative_params E args =
     and_then (out_of_range E (coalesce (property args ''rangeSeconds'') (Num (Fin 900))) 1 86400) (\<lambda>bad_range.
       if bad_range then Inl (Error '''rangeSeconds' must be between 1 and 86400 (24 hours)'')
       else if streamId_invalid (property args ''streamId'') then Inl (Error '''streamId' must be a string'')
       else and_then (out_of_range E (coalesce (property args ''limit'') (Num (Fin 50))) 1 1000) (\<lambda>bad.
         if bad then Inl (Error '''limit' must be between 1 and 1000'')
         else Inr ([(''query'', Str (String_trim E (the_string (property args ''query'')))),
                    (''range'', coalesce (property args ''rangeSeconds'') (Num (Fin 900))),
                    (''limit'', coalesce (property args ''limit'') (Num (Fin 50))),
                    (''fields'', Str ''message,timestamp,source,level'')]
                   @ (if truthy (property args ''streamId'')
                      then [(''filter'', Str (''streams:'' @ the_string (property args ''streamId'')))]
                      else []))))"
proof -
  from assms(2) obtain q where q: "property args ''query'' = Str q"
    using query_valid_Str by blast
  show ?thesis
    using assms q
    by (auto simp: relative_params_def destructure_def Let_def trim_call_def stream_filter_valid
             and_then_def split: sum.splits)
qed

lemma absolute_params_limit_fails:
  assumes "out_of_range E (coalesce (property args ''limit'') (Num (Fin 50))) 1 1000 = Inr True"
  shows "\<exists>e. absolute_params E args = Inl e"
  using assms
  by (auto simp: absolute_params_def Let_def and_then_def split: sum.splits)

lemma relative_params_range_fails:
  assumes "out_of_range E (coalesce (property args ''rangeSeconds'') (Num (Fin 900))) 1 86400 = Inr True"
  shows "\<exists>e. relative_params E args = Inl e"
  using assms
  by (auto simp: relative_params_def Let_def and_then_def split: sum.splits)

lemma streamId_invalid_fails:
  assumes "streamId_invalid (property args ''streamId'')"
  shows "(\<exists>e. absolute_params E args = Inl e) \<and> (\<exists>e. relative_params E args = Inl e)"
  using assms
  by (auto simp: absolute_params_def relative_params_def Let_def and_then_def split: sum.splits)

lemma streamId_invalid_iff:
  "streamId_invalid v \<longleftrightarrow> v \<noteq> Undefined \<and> (\<forall>s. v \<noteq> Str s)"
  by (cases v) (simp_all add: streamId_invalid_def)

lemmas run_defs =
  absolute_params_def relative_params_def destructure_def nullish_def coalesce_def
  query_invalid_def reference_engine_def ascii_trim_def ascii_space_def
  validateTimeRange_def isValidISO8601_def test_dates_def date_ge_def streamId_invalid_def
  out_of_range_def js_lt_def js_gt_def trim_call_def stream_filter_def digits_to_number_def
  absolute_args_def relative_args_def

text \<open>
  C2. In \<^verbatim>\<open>searchLogsAbsolute\<close>, when the query, the time range and the stream id
  pass their checks: an absent or \<^verbatim>\<open>null\<close> limit is replaced by 50 and validation
  succeeds; every numeric limit \<open>x\<close> with \<open>1 \<le> x \<le> 1000\<close> succeeds and is kept; a
  limit that is present is never replaced by the default; and every numeric limit
  below 1 or above 1000 (0, negative numbers, the infinities) fails with
  \<^verbatim>\<open>'limit' must be between 1 and 1000\<close>. Whatever the other arguments are, such a
  limit makes the validation fail.
\<close>

theorem absolute_limit_validation:
  "(\<not> nullish args \<and> \<not> query_invalid E (property args ''query'')
      \<and> property args ''from'' = Str f \<and> property args ''to'' = Str t
      \<and> validateTimeRange E (Str f) (Str t) = Inr ()
      \<and> \<not> streamId_invalid (property args ''streamId'') \<longrightarrow>
        (nullish (property args ''limit'') \<longrightarrow>
           (\<exists>ps. absolute_params E args = Inr ps \<and> map_of ps ''limit'' = Some (Num (Fin 50))))
      \<and> (\<forall>x. property args ''limit'' = Num (Fin x) \<and> 1 \<le> x \<and> x \<le> 1000 \<longrightarrow>
           (\<exists>ps. absolute_params E args = Inr ps \<and> map_of ps ''limit'' = Some (Num (Fin x))))
      \<and> (\<not> nullish (property args ''limit'') \<longrightarrow>
           (\<forall>ps. absolute_params E args = Inr ps \<longrightarrow>
                 map_of ps ''limit'' = Some (property args ''limit'')))
      \<and> (\<forall>n. property args ''limit'' = Num n \<and> (num_lt n (Fin 1) \<or> num_lt (Fin 1000) n) \<longrightarrow>
           absolute_params E args = Inl (Error '''limit' must be between 1 and 1000'')))
   \<and> (\<forall>n. property args ''limit'' = Num n \<and> (num_lt n (Fin 1) \<or> num_lt (Fin 1000) n) \<longrightarrow>
         (\<exists>e. absolute_params E args = Inl e))
   \<and> (\<forall>x. (num_lt (Fin x) (Fin 1) \<or> num_lt (Fin 1000) (Fin x)) = (x < 1 \<or> 1000 < x))
   \<and> num_lt NegInf (Fin 1) \<and> num_lt (Fin 1000) PosInf"
proof (intro conjI impI)
  assume ok: "\<not> nullish args \<and> \<not> query_invalid E (property args ''query'')
      \<and> property args ''from'' = Str f \<and> property args ''to'' = Str t
      \<and> validateTimeRange E (Str f) (Str t) = Inr ()
      \<and> \<not> streamId_invalid (property args ''streamId'')"
  note eq = absolute_params_checked [of args E f t]
  show "\<exists>ps. absolute_params E args = Inr ps \<and> map_of ps ''limit'' = Some (Num (Fin 50))"
    if "nullish (property args ''limit'')"
    using ok that by (simp add: eq coalesce_def out_of_range_ToNumber [where n = "Fin 50"])
  show "\<forall>x. property args ''limit'' = Num (Fin x) \<and> 1 \<le> x \<and> x \<le> 1000 \<longrightarrow>
           (\<exists>ps. absolute_params E args = Inr ps \<and> map_of ps ''limit'' = Some (Num (Fin x)))"
    using ok by (auto simp: eq coalesce_def nullish_def out_of_range_ToNumber)
  show "\<forall>ps. absolute_params E args = Inr ps \<longrightarrow>
                 map_of ps ''limit'' = Some (property args ''limit'')"
    if "\<not> nullish (property args ''limit'')"
    using ok that
    by (auto simp: eq coalesce_def and_then_def split: sum.splits if_splits)
  show "\<forall>n. property args ''limit'' = Num n \<and> (num_lt n (Fin 1) \<or> num_lt (Fin 1000) n) \<longrightarrow>
           absolute_params E args = Inl (Error '''limit' must be between 1 and 1000'')"
    using ok by (auto simp: eq coalesce_def nullish_def out_of_range_ToNumber)
next
  show "\<forall>n. property args ''limit'' = Num n \<and> (num_lt n (Fin 1) \<or> num_lt (Fin 1000) n) \<longrightarrow>
         (\<exists>e. absolute_params E args = Inl e)"
    by (auto intro!: absolute_params_limit_fails simp: coalesce_def nullish_def out_of_range_ToNumber)
qed simp_all

theorem absolute_limit_validation_witness:
  "absolute_params reference_engine (absolute_args [])
     = Inr [(''query'', Str ''level:ERROR''), (''from'', Str ''2025-09-29T17:57:26.568Z''),
            (''to'', Str ''2025-09-30T12:36:20.910Z''), (''limit'', Num (Fin 50)),
            (''fields'', Str ''message,timestamp,source,level'')]
   \<and> (\<exists>ps. absolute_params reference_engine (absolute_args [(''limit'', Null)]) = Inr ps
           \<and> map_of ps ''limit'' = Some (Num (Fin 50)))
   \<and> (\<exists>ps. absolute_params reference_engine (absolute_args [(''limit'', Num (Fin 1000))]) = Inr ps
           \<and> map_of ps ''limit'' = Some (Num (Fin 1000)))
   \<and> absolute_params reference_engine (absolute_args [(''limit'', Num (Fin 0))])
     = Inl (Error '''limit' must be between 1 and 1000'')
   \<and> (\<exists>e. absolute_params reference_engine (Obj [(''limit'', Num (Fin 1001))]) = Inl e)"
proof -
  have pre: "\<not> nullish (absolute_args extra)
      \<and> \<not> query_invalid reference_engine (property (absolute_args extra) ''query'')
      \<and> property (absolute_args extra) ''from'' = Str ''2025-09-29T17:57:26.568Z''
      \<and> property (absolute_args extra) ''to'' = Str ''2025-09-30T12:36:20.910Z''
      \<and> validateTimeRange reference_engine (Str ''2025-09-29T17:57:26.568Z'')
            (Str ''2025-09-30T12:36:20.910Z'') = Inr ()"
    for extra
    by (simp add: run_defs)
  note inst = absolute_limit_validation [where E = reference_engine
          and f = "''2025-09-29T17:57:26.568Z''" and t = "''2025-09-30T12:36:20.910Z''"]
  have a: "absolute_params reference_engine (absolute_args [])
     = Inr [(''query'', Str ''level:ERROR''), (''from'', Str ''2025-09-29T17:57:26.568Z''),
            (''to'', Str ''2025-09-30T12:36:20.910Z''), (''limit'', Num (Fin 50)),
            (''fields'', Str ''message,timestamp,source,level'')]"
    by (simp add: run_defs)
  have b: "\<exists>ps. absolute_params reference_engine (absolute_args [(''limit'', Null)]) = Inr ps
           \<and> map_of ps ''limit'' = Some (Num (Fin 50))"
    using inst [where args = "absolute_args [(''limit'', Null)]"] pre [of "[(''limit'', Null)]"]
    by (simp add: absolute_args_def streamId_invalid_def nullish_def)
  have c: "\<exists>ps. absolute_params reference_engine (absolute_args [(''limit'', Num (Fin 1000))]) = Inr ps
           \<and> map_of ps ''limit'' = Some (Num (Fin 1000))"
    using inst [where args = "absolute_args [(''limit'', Num (Fin 1000))]"]
          pre [of "[(''limit'', Num (Fin 1000))]"]
    by (simp add: absolute_args_def streamId_invalid_def nullish_def)
  have d: "absolute_params reference_engine (absolute_args [(''limit'', Num (Fin 0))])
     = Inl (Error '''limit' must be between 1 and 1000'')"
    using inst [where args = "absolute_args [(''limit'', Num (Fin 0))]"]
          pre [of "[(''limit'', Num (Fin 0))]"]
    by (simp add: absolute_args_def streamId_invalid_def nullish_def)
  have e: "\<exists>e. absolute_params reference_engine (Obj [(''limit'', Num (Fin 1001))]) = Inl e"
    using inst [where args = "Obj [(''limit'', Num (Fin 1001))]"]
    by simp
  from a b c d e show ?thesis by blast
qed

text \<open>
  C7. In \<^verbatim>\<open>searchLogsRelative\<close>, when the query passes its check: every numeric
  \<^verbatim>\<open>rangeSeconds\<close> below 1 or above 86400 (0, negative numbers, the infinities)
  fails with \<^verbatim>\<open>'rangeSeconds' must be between 1 and 86400 (24 hours)\<close>; when the
  stream id and the limit pass as well, an absent or \<^verbatim>\<open>null\<close> range is replaced by
  900 and validation succeeds, every \<open>x\<close> with \<open>1 \<le> x \<le> 86400\<close> succeeds and is
  kept, and a range that is present is never replaced by the default. Whatever the
  other arguments are, a range out of bounds makes the validation fail.
\<close>

theorem relative_rangeSeconds_validation:
  "(\<not> nullish args \<and> \<not> query_invalid E (property args ''query'') \<longrightarrow>
      (\<forall>n. property args ''rangeSeconds'' = Num n \<and> (num_lt n (Fin 1) \<or> num_lt (Fin 86400) n) \<longrightarrow>
           relative_params E args = Inl (Error '''rangeSeconds' must be between 1 and 86400 (24 hours)''))
    \<and> (\<not> streamId_invalid (property args ''streamId'')
        \<and> out_of_range E (coalesce (property args ''limit'') (Num (Fin 50))) 1 1000 = Inr False \<longrightarrow>
         (nullish (property args ''rangeSeconds'') \<longrightarrow>
            (\<exists>ps. relative_params E args = Inr ps \<and> map_of ps ''range'' = Some (Num (Fin 900))))
       \<and> (\<forall>x. property args ''rangeSeconds'' = Num (Fin x) \<and> 1 \<le> x \<and> x \<le> 86400 \<longrightarrow>
            (\<exists>ps. relative_params E args = Inr ps \<and> map_of ps ''range'' = Some (Num (Fin x))))
       \<and> (\<not> nullish (property args ''rangeSeconds'') \<longrightarrow>
            (\<forall>ps. relative_params E args = Inr ps \<longrightarrow>
                  map_of ps ''range'' = Some (property args ''rangeSeconds'')))))
   \<and> (\<forall>n. property args ''rangeSeconds'' = Num n \<and> (num_lt n (Fin 1) \<or> num_lt (Fin 86400) n) \<longrightarrow>
         (\<exists>e. relative_params E args = Inl e))
   \<and> (\<forall>x. (num_lt (Fin x) (Fin 1) \<or> num_lt (Fin 86400) (Fin x)) = (x < 1 \<or> 86400 < x))
   \<and> num_lt NegInf (Fin 1) \<and> num_lt (Fin 86400) PosInf"
proof (intro conjI impI)
  assume ok: "\<not> nullish args \<and> \<not> query_invalid E (property args ''query'')"
  note eq = relative_params_checked [of args E]
  show "\<forall>n. property args ''rangeSeconds'' = Num n \<and> (num_lt n (Fin 1) \<or> num_lt (Fin 86400) n) \<longrightarrow>
           relative_params E args = Inl (Error '''rangeSeconds' must be between 1 and 86400 (24 hours)'')"
    using ok by (auto simp: eq coalesce_def nullish_def out_of_range_ToNumber)
  assume rest: "\<not> streamId_invalid (property args ''streamId'')
        \<and> out_of_range E (coalesce (property args ''limit'') (Num (Fin 50))) 1 1000 = Inr False"
  show "\<exists>ps. relative_params E args = Inr ps \<and> map_of ps ''range'' = Some (Num (Fin 900))"
    if "nullish (property args ''rangeSeconds'')"
    using ok rest that by (simp add: eq coalesce_def out_of_range_ToNumber [where n = "Fin 900"])
  show "\<forall>x. property args ''rangeSeconds'' = Num (Fin x) \<and> 1 \<le> x \<and> x \<le> 86400 \<longrightarrow>
            (\<exists>ps. relative_params E args = Inr ps \<and> map_of ps ''range'' = Some (Num (Fin x)))"
    using ok rest
    by (auto simp: eq coalesce_def [of "Num _"] nullish_def out_of_range_ToNumber [where v = "Num _"])
  show "\<forall>ps. relative_params E args = Inr ps \<longrightarrow>
                  map_of ps ''range'' = Some (property args ''rangeSeconds'')"
    if "\<not> nullish (property args ''rangeSeconds'')"
    using ok rest that
    by (auto simp: eq coalesce_def [of "property args ''rangeSeconds''"] and_then_def
             split: sum.splits if_splits)
next
  show "\<forall>n. property args ''rangeSeconds'' = Num n \<and> (num_lt n (Fin 1) \<or> num_lt (Fin 86400) n) \<longrightarrow>
         (\<exists>e. relative_params E args = Inl e)"
    by (auto intro!: relative_params_range_fails simp: coalesce_def nullish_def out_of_range_ToNumber)
qed simp_all

theorem relative_rangeSeconds_validation_witness:
  "relative_params reference_engine (relative_args [(''rangeSeconds'', Num (Fin 3600))])
     = Inr [(''query'', Str ''level:ERROR''), (''range'', Num (Fin 3600)), (''limit'', Num (Fin 50)),
            (''fields'', Str ''message,timestamp,source,level'')]
   \<and> (\<exists>ps. relative_params reference_engine (relative_args []) = Inr ps
           \<and> map_of ps ''range'' = Some (Num (Fin 900)))
   \<and> (\<exists>ps. relative_params reference_engine (relative_args [(''rangeSeconds'', Num (Fin 86400))]) = Inr ps
           \<and> map_of ps ''range'' = Some (Num (Fin 86400)))
   \<and> relative_params reference_engine (relative_args [(''rangeSeconds'', Num (Fin 0))])
     = Inl (Error '''rangeSeconds' must be between 1 and 86400 (24 hours)'')
   \<and> relative_params reference_engine (relative_args [(''rangeSeconds'', Num (Fin 86401))])
     = Inl (Error '''rangeSeconds' must be between 1 and 86400 (24 hours)'')
   \<and> (\<exists>e. relative_params reference_engine (Obj [(''rangeSeconds'', Num (Fin (- 1)))]) = Inl e)"
proof -
  have pre: "\<not> nullish (relative_args extra)
      \<and> \<not> query_invalid reference_engine (property (relative_args extra) ''query'')"
    for extra
    by (simp add: run_defs)
  have lim: "out_of_range reference_engine (coalesce Undefined (Num (Fin 50))) 1 1000 = Inr False"
    by (simp add: run_defs)
  note inst = relative_rangeSeconds_validation [where E = reference_engine]
  have a: "relative_params reference_engine (relative_args [(''rangeSeconds'', Num (Fin 3600))])
     = Inr [(''query'', Str ''level:ERROR''), (''range'', Num (Fin 3600)), (''limit'', Num (Fin 50)),
            (''fields'', Str ''message,timestamp,source,level'')]"
    by (simp add: run_defs)
  have b: "\<exists>ps. relative_params reference_engine (relative_args []) = Inr ps
           \<and> map_of ps ''range'' = Some (Num (Fin 900))"
    using inst [where args = "relative_args []"] pre [of "[]"] lim
    by (simp add: relative_args_def streamId_invalid_def nullish_def)
  have c: "\<exists>ps. relative_params reference_engine (relative_args [(''rangeSeconds'', Num (Fin 86400))]) = Inr ps
           \<and> map_of ps ''range'' = Some (Num (Fin 86400))"
    using inst [where args = "relative_args [(''rangeSeconds'', Num (Fin 86400))]"]
          pre [of "[(''rangeSeconds'', Num (Fin 86400))]"] lim
    by (simp add: relative_args_def streamId_invalid_def nullish_def)
  have d: "relative_params reference_engine (relative_args [(''rangeSeconds'', Num (Fin 0))])
     = Inl (Error '''rangeSeconds' must be between 1 and 86400 (24 hours)'')"
    using inst [where args = "relative_args [(''rangeSeconds'', Num (Fin 0))]"]
          pre [of "[(''rangeSeconds'', Num (Fin 0))]"]
    by (simp add: relative_args_def)
  have e: "relative_params reference_engine (relative_args [(''rangeSeconds'', Num (Fin 86401))])
     = Inl (Error '''rangeSeconds' must be between 1 and 86400 (24 hours)'')"
    using inst [where args = "relative_args [(''rangeSeconds'', Num (Fin 86401))]"]
          pre [of "[(''rangeSeconds'', Num (Fin 86401))]"]
    by (simp add: relative_args_def)
  have f: "\<exists>e. relative_params reference_engine (Obj [(''rangeSeconds'', Num (Fin (- 1)))]) = Inl e"
    using inst [where args = "Obj [(''rangeSeconds'', Num (Fin (- 1)))]"]
    by simp
  from a b c d e f show ?thesis by blast
qed

text \<open>
  C8. A \<^verbatim>\<open>streamId\<close> that is neither \<^verbatim>\<open>undefined\<close> nor a string
  (\<^verbatim>\<open>null\<close> included) makes both search validations fail, whatever the other
  arguments are, and with \<^verbatim>\<open>'streamId' must be a string\<close> as soon as the checks the
  code makes before it pass (query and time range in the absolute search, query and
  range in the relative one). A \<^verbatim>\<open>streamId\<close> that is \<^verbatim>\<open>undefined\<close> or any
  string passes the check, and the validation succeeds when the other checks do.
\<close>

theorem streamId_validation:
  "(property args ''streamId'' \<noteq> Undefined \<and> (\<forall>s. property args ''streamId'' \<noteq> Str s) \<longrightarrow>
       (\<exists>e. absolute_params E args = Inl e) \<and> (\<exists>e. relative_params E args = Inl e)
     \<and> (\<not> nullish args \<and> \<not> query_invalid E (property args ''query'')
          \<and> property args ''from'' = Str f \<and> property args ''to'' = Str t
          \<and> validateTimeRange E (Str f) (Str t) = Inr () \<longrightarrow>
         absolute_params E args = Inl (Error '''streamId' must be a string''))
     \<and> (\<not> nullish args \<and> \<not> query_invalid E (property args ''query'')
          \<and> out_of_range E (coalesce (property args ''rangeSeconds'') (Num (Fin 900))) 1 86400 = Inr False \<longrightarrow>
         relative_params E args = Inl (Error '''streamId' must be a string'')))
   \<and> (property args ''streamId'' = Undefined \<or> (\<exists>s. property args ''streamId'' = Str s) \<longrightarrow>
       \<not> streamId_invalid (property args ''streamId'')
     \<and> (\<not> nullish args \<and> \<not> query_invalid E (property args ''query'')
          \<and> property args ''from'' = Str f \<and> property args ''to'' = Str t
          \<and> validateTimeRange E (Str f) (Str t) = Inr ()
          \<and> out_of_range E (coalesce (property args ''limit'') (Num (Fin 50))) 1 1000 = Inr False \<longrightarrow>
         (\<exists>ps. absolute_params E args = Inr ps))
     \<and> (\<not> nullish args \<and> \<not> query_invalid E (property args ''query'')
          \<and> out_of_range E (coalesce (property args ''rangeSeconds'') (Num (Fin 900))) 1 86400 = Inr False
          \<and> out_of_range E (coalesce (property args ''limit'') (Num (Fin 50))) 1 1000 = Inr False \<longrightarrow>
         (\<exists>ps. relative_params E args = Inr ps)))
   \<and> streamId_invalid Null \<and> \<not> streamId_invalid Undefined \<and> \<not> streamId_invalid (Str s')"
proof (intro conjI impI)
  assume bad: "property args ''streamId'' \<noteq> Undefined \<and> (\<forall>s. property args ''streamId'' \<noteq> Str s)"
  then have inv: "streamId_invalid (property args ''streamId'')"
    by (simp add: streamId_invalid_iff)
  from streamId_invalid_fails [OF inv]
  show "\<exists>e. absolute_params E args = Inl e" and "\<exists>e. relative_params E args = Inl e"
    by blast+
  show "absolute_params E args = Inl (Error '''streamId' must be a string'')"
    if "\<not> nullish args \<and> \<not> query_invalid E (property args ''query'')
          \<and> property args ''from'' = Str f \<and> property args ''to'' = Str t
          \<and> validateTimeRange E (Str f) (Str t) = Inr ()"
    using that inv by (simp add: absolute_params_checked [of args E f t])
  show "relative_params E args = Inl (Error '''streamId' must be a string'')"
    if "\<not> nullish args \<and> \<not> query_invalid E (property args ''query'')
          \<and> out_of_range E (coalesce (property args ''rangeSeconds'') (Num (Fin 900))) 1 86400 = Inr False"
    using that inv by (simp add: relative_params_checked [of args E])
next
  assume good: "property args ''streamId'' = Undefined \<or> (\<exists>s. property args ''streamId'' = Str s)"
  then show valid: "\<not> streamId_invalid (property args ''streamId'')"
    by (auto simp: streamId_invalid_iff)
  show "\<exists>ps. absolute_params E args = Inr ps"
    if "\<not> nullish args \<and> \<not> query_invalid E (property args ''query'')
          \<and> property args ''from'' = Str f \<and> property args ''to'' = Str t
          \<and> validateTimeRange E (Str f) (Str t) = Inr ()
          \<and> out_of_range E (coalesce (property args ''limit'') (Num (Fin 50))) 1 1000 = Inr False"
    using that valid by (simp add: absolute_params_checked [of args E f t])
  show "\<exists>ps. relative_params E args = Inr ps"
    if "\<not> nullish args \<and> \<not> query_invalid E (property args ''query'')
          \<and> out_of_range E (coalesce (property args ''rangeSeconds'') (Num (Fin 900))) 1 86400 = Inr False
          \<and> out_of_range E (coalesce (property args ''limit'') (Num (Fin 50))) 1 1000 = Inr False"
    using that valid by (simp add: relative_params_checked [of args E])
qed (simp_all add: streamId_invalid_def)

theorem streamId_validation_witness:
  "absolute_params reference_engine (absolute_args [(''streamId'', Null)])
     = Inl (Error '''streamId' must be a string'')
   \<and> relative_params reference_engine (relative_args [(''streamId'', Num (Fin 123))])
     = Inl (Error '''streamId' must be a string'')
   \<and> (\<exists>e. absolute_params reference_engine (Obj [(''streamId'', Obj [])]) = Inl e)
   \<and> (\<exists>ps. absolute_params reference_engine (absolute_args [(''streamId'', Str ''646221a5bd29672a6f0246d8'')]) = Inr ps)
   \<and> (\<exists>ps. relative_params reference_engine (relative_args []) = Inr ps)
   \<and> absolute_params reference_engine (absolute_args [(''streamId'', Str ''646221a5bd29672a6f0246d8'')])
     = Inr [(''query'', Str ''level:ERROR''), (''from'', Str ''2025-09-29T17:57:26.568Z''),
            (''to'', Str ''2025-09-30T12:36:20.910Z''), (''limit'', Num (Fin 50)),
            (''fields'', Str ''message,timestamp,source,level''),
            (''filter'', Str ''streams:646221a5bd29672a6f0246d8'')]"
proof -
  have pre_abs: "\<not> nullish (absolute_args extra)
      \<and> \<not> query_invalid reference_engine (property (absolute_args extra) ''query'')
      \<and> property (absolute_args extra) ''from'' = Str ''2025-09-29T17:57:26.568Z''
      \<and> property (absolute_args extra) ''to'' = Str ''2025-09-30T12:36:20.910Z''
      \<and> validateTimeRange reference_engine (Str ''2025-09-29T17:57:26.568Z'')
            (Str ''2025-09-30T12:36:20.910Z'') = Inr ()"
    for extra
    by (simp add: run_defs)
  have pre_rel: "\<not> nullish (relative_args extra)
      \<and> \<not> query_invalid reference_engine (property (relative_args extra) ''query'')"
    for extra
    by (simp add: run_defs)
  have dflt: "out_of_range reference_engine (coalesce Undefined (Num (Fin 50))) 1 1000 = Inr False"
    "out_of_range reference_engine (coalesce Undefined (Num (Fin 900))) 1 86400 = Inr False"
    by (simp_all add: run_defs)
  note inst = streamId_validation [where E = reference_engine
          and f = "''2025-09-29T17:57:26.568Z''" and t = "''2025-09-30T12:36:20.910Z''"]
  have a: "absolute_params reference_engine (absolute_args [(''streamId'', Null)])
     = Inl (Error '''streamId' must be a string'')"
    using inst [where args = "absolute_args [(''streamId'', Null)]"]
          pre_abs [of "[(''streamId'', Null)]"]
    by (simp add: absolute_args_def)
  have b: "relative_params reference_engine (relative_args [(''streamId'', Num (Fin 123))])
     = Inl (Error '''streamId' must be a string'')"
    using inst [where args = "relative_args [(''streamId'', Num (Fin 123))]"]
          pre_rel [of "[(''streamId'', Num (Fin 123))]"] dflt
    by (simp add: relative_args_def)
  have c: "\<exists>e. absolute_params reference_engine (Obj [(''streamId'', Obj [])]) = Inl e"
    using inst [where args = "Obj [(''streamId'', Obj [])]"]
    by simp
  have d: "\<exists>ps. absolute_params reference_engine
                  (absolute_args [(''streamId'', Str ''646221a5bd29672a6f0246d8'')]) = Inr ps"
    using inst [where args = "absolute_args [(''streamId'', Str ''646221a5bd29672a6f0246d8'')]"]
          pre_abs [of "[(''streamId'', Str ''646221a5bd29672a6f0246d8'')]"] dflt
    by (simp add: absolute_args_def)
  have e: "\<exists>ps. relative_params reference_engine (relative_args []) = Inr ps"
    using inst [where args = "relative_args []"] pre_rel [of "[]"] dflt
    by (simp add: relative_args_def)
  have f: "absolute_params reference_engine (absolute_args [(''streamId'', Str ''646221a5bd29672a6f0246d8'')])
     = Inr [(''query'', Str ''level:ERROR''), (''from'', Str ''2025-09-29T17:57:26.568Z''),
            (''to'', Str ''2025-09-30T12:36:20.910Z''), (''limit'', Num (Fin 50)),
            (''fields'', Str ''message,timestamp,source,level''),
            (''filter'', Str ''streams:646221a5bd29672a6f0246d8'')]"
    by (simp add: run_defs)
  from a b c d e f show ?thesis by blast
qed

text \<open>
  C10. A limit that converts to \<open>NaN\<close> (\<open>NaN\<close> itself, a string that is not
  numeric) is below nothing and above nothing: \<^verbatim>\<open>limit < 1\<close> and
  \<^verbatim>\<open>limit > 1000\<close> are both false. When the other checks pass, both validations
  then succeed, the request parameters carry that very value as \<open>limit\<close>, and the
  search hands these parameters to the remote call. In general, with the other checks
  passed, the limit is rejected exactly when the number it converts to is below 1 or
  above 1000.
\<close>

theorem limit_not_comparable:
  "ToNumber E (Num NaN) = Inr NaN
   \<and> (StringToNumber E s = NaN \<longrightarrow> ToNumber E (Str s) = Inr NaN)
   \<and> (\<not> nullish (property args ''limit'') \<and> ToNumber E (property args ''limit'') = Inr NaN \<longrightarrow>
        js_lt E (property args ''limit'') 1 = Inr False
      \<and> js_gt E (property args ''limit'') 1000 = Inr False
      \<and> (\<not> nullish args \<and> \<not> query_invalid E (property args ''query'')
          \<and> property args ''from'' = Str f \<and> property args ''to'' = Str t
          \<and> validateTimeRange E (Str f) (Str t) = Inr ()
          \<and> \<not> streamId_invalid (property args ''streamId'') \<longrightarrow>
           (\<exists>ps. absolute_params E args = Inr ps
               \<and> map_of ps ''limit'' = Some (property args ''limit'')
               \<and> searchLogsAbsolute E C net args =
                   and_then (graylogRequest E C net ''/api/search/universal/absolute'' ps) (\<lambda>data.
                   and_then (absolute_result data (Str f) (Str t)) (\<lambda>result.
                     Inr (json_envelope E result)))))
      \<and> (\<not> nullish args \<and> \<not> query_invalid E (property args ''query'')
          \<and> out_of_range E (coalesce (property args ''rangeSeconds'') (Num (Fin 900))) 1 86400 = Inr False
          \<and> \<not> streamId_invalid (property args ''streamId'') \<longrightarrow>
           (\<exists>ps. relative_params E args = Inr ps
               \<and> map_of ps ''limit'' = Some (property args ''limit'')
               \<and> searchLogsRelative E C net args =
                   and_then (graylogRequest E C net ''/api/search/universal/relative'' ps) (\<lambda>data.
                   and_then (relative_result E data (coalesce (property args ''rangeSeconds'') (Num (Fin 900))))
                     (\<lambda>result. Inr (json_envelope E result))))))
   \<and> (ToNumber E (coalesce (property args ''limit'') (Num (Fin 50))) = Inr n \<longrightarrow>
        (\<not> nullish args \<and> \<not> query_invalid E (property args ''query'')
          \<and> property args ''from'' = Str f \<and> property args ''to'' = Str t
          \<and> validateTimeRange E (Str f) (Str t) = Inr ()
          \<and> \<not> streamId_invalid (property args ''streamId'') \<longrightarrow>
           (absolute_params E args = Inl (Error '''limit' must be between 1 and 1000'')
              \<longleftrightarrow> num_lt n (Fin 1) \<or> num_lt (Fin 1000) n))
      \<and> (\<not> nullish args \<and> \<not> query_invalid E (property args ''query'')
          \<and> out_of_range E (coalesce (property args ''rangeSeconds'') (Num (Fin 900))) 1 86400 = Inr False
          \<and> \<not> streamId_invalid (property args ''streamId'') \<longrightarrow>
           (relative_params E args = Inl (Error '''limit' must be between 1 and 1000'')
              \<longleftrightarrow> num_lt n (Fin 1) \<or> num_lt (Fin 1000) n)))"
proof (intro conjI impI)
  assume nan: "\<not> nullish (property args ''limit'') \<and> ToNumber E (property args ''limit'') = Inr NaN"
  then have co: "coalesce (property args ''limit'') (Num (Fin 50)) = property args ''limit''"
    by (simp add: coalesce_def)
  from nan have oor: "out_of_range E (property args ''limit'') 1 1000 = Inr False"
    by (simp add: out_of_range_ToNumber [where n = NaN])
  from nan show "js_lt E (property args ''limit'') 1 = Inr False"
    and "js_gt E (property args ''limit'') 1000 = Inr False"
    by (simp_all add: js_lt_def js_gt_def)
  show "\<exists>ps. absolute_params E args = Inr ps
               \<and> map_of ps ''limit'' = Some (property args ''limit'')
               \<and> searchLogsAbsolute E C net args =
                   and_then (graylogRequest E C net ''/api/search/universal/absolute'' ps) (\<lambda>data.
                   and_then (absolute_result data (Str f) (Str t)) (\<lambda>result.
                     Inr (json_envelope E result)))"
    if "\<not> nullish args \<and> \<not> query_invalid E (property args ''query'')
          \<and> property args ''from'' = Str f \<and> property args ''to'' = Str t
          \<and> validateTimeRange E (Str f) (Str t) = Inr ()
          \<and> \<not> streamId_invalid (property args ''streamId'')"
    using that by (simp add: searchLogsAbsolute_def absolute_params_checked [of args E f t] co oor)
  show "\<exists>ps. relative_params E args = Inr ps
               \<and> map_of ps ''limit'' = Some (property args ''limit'')
               \<and> searchLogsRelative E C net args =
                   and_then (graylogRequest E C net ''/api/search/universal/relative'' ps) (\<lambda>data.
                   and_then (relative_result E data (coalesce (property args ''rangeSeconds'') (Num (Fin 900))))
                     (\<lambda>result. Inr (json_envelope E result)))"
    if "\<not> nullish args \<and> \<not> query_invalid E (property args ''query'')
          \<and> out_of_range E (coalesce (property args ''rangeSeconds'') (Num (Fin 900))) 1 86400 = Inr False
          \<and> \<not> streamId_invalid (property args ''streamId'')"
    using that by (simp add: searchLogsRelative_def relative_params_checked [of args E] co oor)
next
  assume n: "ToNumber E (coalesce (property args ''limit'') (Num (Fin 50))) = Inr n"
  show "absolute_params E args = Inl (Error '''limit' must be between 1 and 1000'')
              \<longleftrightarrow> num_lt n (Fin 1) \<or> num_lt (Fin 1000) n"
    if "\<not> nullish args \<and> \<not> query_invalid E (property args ''query'')
          \<and> property args ''from'' = Str f \<and> property args ''to'' = Str t
          \<and> validateTimeRange E (Str f) (Str t) = Inr ()
          \<and> \<not> streamId_invalid (property args ''streamId'')"
    using that by (simp add: absolute_params_checked [of args E f t] out_of_range_ToNumber [OF n])
  show "relative_params E args = Inl (Error '''limit' must be between 1 and 1000'')
              \<longleftrightarrow> num_lt n (Fin 1) \<or> num_lt (Fin 1000) n"
    if "\<not> nullish args \<and> \<not> query_invalid E (property args ''query'')
          \<and> out_of_range E (coalesce (property args ''rangeSeconds'') (Num (Fin 900))) 1 86400 = Inr False
          \<and> \<not> streamId_invalid (property args ''streamId'')"
    using that by (simp add: relative_params_checked [of args E] out_of_range_ToNumber [OF n])
qed simp_all

theorem limit_not_comparable_witness:
  "StringToNumber reference_engine ''abc'' = NaN
   \<and> absolute_params reference_engine (absolute_args [(''limit'', Str ''abc'')])
     = Inr [(''query'', Str ''level:ERROR''), (''from'', Str ''2025-09-29T17:57:26.568Z''),
            (''to'', Str ''2025-09-30T12:36:20.910Z''), (''limit'', Str ''abc''),
            (''fields'', Str ''message,timestamp,source,level'')]
   \<and> (\<exists>ps. absolute_params reference_engine (absolute_args [(''limit'', Str ''abc'')]) = Inr ps
        \<and> map_of ps ''limit'' = Some (Str ''abc'')
        \<and> searchLogsAbsolute reference_engine test_config (\<lambda>rq. Inr (Obj []))
              (absolute_args [(''limit'', Str ''abc'')]) =
            and_then (graylogRequest reference_engine test_config (\<lambda>rq. Inr (Obj []))
                        ''/api/search/universal/absolute'' ps) (\<lambda>data.
            and_then (absolute_result data (Str ''2025-09-29T17:57:26.568Z'') (Str ''2025-09-30T12:36:20.910Z''))
              (\<lambda>result. Inr (json_envelope reference_engine result))))
   \<and> (\<exists>ps. relative_params reference_engine (relative_args [(''limit'', Num NaN)]) = Inr ps
        \<and> map_of ps ''limit'' = Some (Num NaN))
   \<and> relative_params reference_engine (relative_args [(''limit'', Str ''0'')])
     = Inl (Error '''limit' must be between 1 and 1000'')"
proof -
  have pre_abs: "\<not> nullish (absolute_args extra)
      \<and> \<not> query_invalid reference_engine (property (absolute_args extra) ''query'')
      \<and> property (absolute_args extra) ''from'' = Str ''2025-09-29T17:57:26.568Z''
      \<and> property (absolute_args extra) ''to'' = Str ''2025-09-30T12:36:20.910Z''
      \<and> validateTimeRange reference_engine (Str ''2025-09-29T17:57:26.568Z'')
            (Str ''2025-09-30T12:36:20.910Z'') = Inr ()"
    for extra
    by (simp add: run_defs)
  have pre_rel: "\<not> nullish (relative_args extra)
      \<and> \<not> query_invalid reference_engine (property (relative_args extra) ''query'')"
    for extra
    by (simp add: run_defs)
  have dflt: "out_of_range reference_engine (coalesce Undefined (Num (Fin 900))) 1 86400 = Inr False"
    by (simp add: run_defs)
  have abc: "StringToNumber reference_engine ''abc'' = NaN"
    by (simp add: run_defs)
  have zero: "ToNumber reference_engine (Str ''0'') = Inr (Fin 0)"
    by (simp add: run_defs)
  note inst = limit_not_comparable [where E = reference_engine
          and f = "''2025-09-29T17:57:26.568Z''" and t = "''2025-09-30T12:36:20.910Z''"]
  have a: "absolute_params reference_engine (absolute_args [(''limit'', Str ''abc'')])
     = Inr [(''query'', Str ''level:ERROR''), (''from'', Str ''2025-09-29T17:57:26.568Z''),
            (''to'', Str ''2025-09-30T12:36:20.910Z''), (''limit'', Str ''abc''),
            (''fields'', Str ''message,timestamp,source,level'')]"
    by (simp add: run_defs)
  have b: "\<exists>ps. absolute_params reference_engine (absolute_args [(''limit'', Str ''abc'')]) = Inr ps
        \<and> map_of ps ''limit'' = Some (Str ''abc'')
        \<and> searchLogsAbsolute reference_engine test_config (\<lambda>rq. Inr (Obj []))
              (absolute_args [(''limit'', Str ''abc'')]) =
            and_then (graylogRequest reference_engine test_config (\<lambda>rq. Inr (Obj []))
                        ''/api/search/universal/absolute'' ps) (\<lambda>data.
            and_then (absolute_result data (Str ''2025-09-29T17:57:26.568Z'') (Str ''2025-09-30T12:36:20.910Z''))
              (\<lambda>result. Inr (json_envelope reference_engine result)))"
    using inst [where args = "absolute_args [(''limit'', Str ''abc'')]" and s = "''abc''"
                  and C = test_config and net = "\<lambda>rq. Inr (Obj [])" and n = NaN]
          pre_abs [of "[(''limit'', Str ''abc'')]"] abc
    by (simp add: absolute_args_def streamId_invalid_def nullish_def)
  have c: "\<exists>ps. relative_params reference_engine (relative_args [(''limit'', Num NaN)]) = Inr ps
        \<and> map_of ps ''limit'' = Some (Num NaN)"
    using inst [where args = "relative_args [(''limit'', Num NaN)]" and n = NaN
                  and C = test_config and net = "\<lambda>rq. Inr (Obj [])"]
          pre_rel [of "[(''limit'', Num NaN)]"] dflt
    by (simp add: relative_args_def streamId_invalid_def nullish_def) blast
  have d: "relative_params reference_engine (relative_args [(''limit'', Str ''0'')])
     = Inl (Error '''limit' must be between 1 and 1000'')"
    using inst [where args = "relative_args [(''limit'', Str ''0'')]" and n = "Fin 0"
                  and C = test_config and net = "\<lambda>rq. Inr (Obj [])"]
          pre_rel [of "[(''limit'', Str ''0'')]"] dflt zero
    by (simp add: relative_args_def streamId_invalid_def nullish_def coalesce_def)
  from abc a b c d show ?thesis by blast
qed

subsection \<open>Response shaping\<close>

text \<open>A callback that never throws makes \<^verbatim>\<open>filter\<close> and \<^verbatim>\<open>map\<close> the list
  functions.\<close>

lemma filter_js_total:
  "(\<And>x. x \<in> set xs \<Longrightarrow> p x = Inr (q x)) \<Longrightarrow> filter_js p xs = Inr (filter q xs)"
  by (induction xs) simp_all

lemma map_js_total:
  "(\<And>x. x \<in> set xs \<Longrightarrow> f x = Inr (g x)) \<Longrightarrow> map_js f xs = Inr (map g xs)"
  by (induction xs) simp_all

lemma get_truthy: "truthy v \<Longrightarrow> get v k = Inr (property v k)"
  by (cases v) (simp_all add: get_def nullish_def)

lemma keep_message_total:
  "keep_message m = Inr (truthy m \<and> truthy (property m ''message''))"
  by (simp add: keep_message_def get_truthy)

lemma project_message_kept:
  "truthy m \<Longrightarrow> truthy (property m ''message'') \<Longrightarrow>
   project_message m =
     Inr (Obj [(''timestamp'', property (property m ''message'') ''timestamp''),
               (''message'', property (property m ''message'') ''message''),
               (''source'', property (property m ''message'') ''source''),
               (''level'', property (property m ''message'') ''level'')])"
  by (simp add: project_message_def nested_def get_truthy)

lemma shape_messages_array:
  assumes "\<not> nullish data" and "property data ''messages'' = Arr ms"
  shows "shape_messages data =
     Inr (Arr (map (\<lambda>m. Obj [(''timestamp'', property (property m ''message'') ''timestamp''),
                              (''message'', property (property m ''message'') ''message''),
                              (''source'', property (property m ''message'') ''source''),
                              (''level'', property (property m ''message'') ''level'')])
               (filter (\<lambda>m. truthy m \<and> truthy (property m ''message'')) ms)))"
proof -
  have kept: "filter_js keep_message ms =
      Inr (filter (\<lambda>m. truthy m \<and> truthy (property m ''message'')) ms)"
    by (rule filter_js_total) (rule keep_message_total)
  have proj: "map_js project_message (filter (\<lambda>m. truthy m \<and> truthy (property m ''message'')) ms) =
      Inr (map (\<lambda>m. Obj [(''timestamp'', property (property m ''message'') ''timestamp''),
                          (''message'', property (property m ''message'') ''message''),
                          (''source'', property (property m ''message'') ''source''),
                          (''level'', property (property m ''message'') ''level'')])
             (filter (\<lambda>m. truthy m \<and> truthy (property m ''message'')) ms))"
    by (rule map_js_total) (simp add: project_message_kept)
  show ?thesis
    using assms by (simp add: shape_messages_def get_def or_else_def as_array_def kept proj)
qed


text \<open>
  C4. The filter \<^verbatim>\<open>m => m && m.message\<close> is a truthiness test: the entry
  \<^verbatim>\<open>{message: ""}\<close> is not \<^verbatim>\<open>null\<close> or absent and neither is its payload, yet
  it is dropped, not projected.
\<close>

theorem search_messages_falsy_payload_counterexample:
  "Obj [(''message'', Str [])] \<noteq> Null \<and> Obj [(''message'', Str [])] \<noteq> Undefined
   \<and> property (Obj [(''message'', Str [])]) ''message'' \<noteq> Null
   \<and> property (Obj [(''message'', Str [])]) ''message'' \<noteq> Undefined
   \<and> shape_messages (Obj [(''messages'', Arr [Obj [(''message'', Str [])]])]) = Inr (Arr [])
   \<and> absolute_result
         (Obj [(''total_results'', Num (Fin 1)), (''built_query'', Str ''*''),
               (''messages'', Arr [Obj [(''message'', Str [])]])])
         (Str ''2025-09-29T17:57:26.568Z'') (Str ''2025-09-30T12:36:20.910Z'')
     = Inr (Obj [(''total_results'', Num (Fin 1)), (''query'', Str ''*''),
                 (''time_range'', Obj [(''from'', Str ''2025-09-29T17:57:26.568Z''),
                                       (''to'', Str ''2025-09-30T12:36:20.910Z'')]),
                 (''messages'', Arr [])])"
  by (simp add: shape_messages_def absolute_result_def get_def nullish_def or_else_def as_array_def
                keep_message_def)

text \<open>
  C4, as amended. For every response \<open>data\<close> whose \<^verbatim>\<open>messages\<close> is an array
  \<open>ms\<close>, the shaped messages are exactly the projections, one per entry and in the
  order of \<open>ms\<close>, of the entries that are truthy with a truthy \<^verbatim>\<open>message\<close>
  payload; each is projected to \<^verbatim>\<open>timestamp\<close>, \<^verbatim>\<open>message\<close>, \<^verbatim>\<open>source\<close>,
  \<^verbatim>\<open>level\<close> of the payload, and both searches put this array in their result. A
  falsy \<^verbatim>\<open>messages\<close> gives the empty array. An entry is kept exactly when it and
  its payload are truthy: every entry that is \<^verbatim>\<open>null\<close> or \<^verbatim>\<open>undefined\<close>, or
  whose payload is, is dropped (as is one whose payload is \<^verbatim>\<open>false\<close>, \<open>0\<close>,
  \<open>NaN\<close> or the empty string), and an entry whose payload is an object is kept. The
  array of the repository's test (\<^verbatim>\<open>null\<close>, \<^verbatim>\<open>undefined\<close>, \<^verbatim>\<open>{}\<close>,
  \<^verbatim>\<open>{message: null}\<close> and one well-formed entry) yields exactly that entry's
  projection.
\<close>

theorem search_messages_shaping:
  "(\<not> nullish data \<and> property data ''messages'' = Arr ms \<longrightarrow>
        shape_messages data =
          Inr (Arr (map (\<lambda>m. Obj [(''timestamp'', property (property m ''message'') ''timestamp''),
                                   (''message'', property (property m ''message'') ''message''),
                                   (''source'', property (property m ''message'') ''source''),
                                   (''level'', property (property m ''message'') ''level'')])
                    (filter (\<lambda>m. truthy m \<and> truthy (property m ''message'')) ms)))
      \<and> absolute_result data f t =
          Inr (Obj [(''total_results'', or_else (property data ''total_results'') (Num (Fin 0))),
                    (''query'', property data ''built_query''),
                    (''time_range'', Obj [(''from'', f), (''to'', t)]),
                    (''messages'',
                       Arr (map (\<lambda>m. Obj [(''timestamp'', property (property m ''message'') ''timestamp''),
                                   (''message'', property (property m ''message'') ''message''),
                                   (''source'', property (property m ''message'') ''source''),
                                   (''level'', property (property m ''message'') ''level'')])
                            (filter (\<lambda>m. truthy m \<and> truthy (property m ''message'')) ms)))])
      \<and> subseq (filter (\<lambda>m. truthy m \<and> truthy (property m ''message'')) ms) ms
      \<and> (ToString E r = Inr secs \<longrightarrow>
          relative_result E data r =
            Inr (Obj [(''total_results'', or_else (property data ''total_results'') (Num (Fin 0))),
                      (''query'', property data ''built_query''),
                      (''time_range'', Str (''Last '' @ secs @ '' seconds'')),
                      (''messages'',
                         Arr (map (\<lambda>m. Obj [(''timestamp'', property (property m ''message'') ''timestamp''),
                                   (''message'', property (property m ''message'') ''message''),
                                   (''source'', property (property m ''message'') ''source''),
                                   (''level'', property (property m ''message'') ''level'')])
                              (filter (\<lambda>m. truthy m \<and> truthy (property m ''message'')) ms)))])))
   \<and> (\<not> nullish data \<and> \<not> truthy (property data ''messages'') \<longrightarrow> shape_messages data = Inr (Arr []))
   \<and> keep_message m = Inr (truthy m \<and> truthy (property m ''message''))
   \<and> (m = Null \<or> m = Undefined \<or> property m ''message'' = Null \<or> property m ''message'' = Undefined \<longrightarrow>
        keep_message m = Inr False)
   \<and> (map_of kvs ''message'' = Some (Obj payload) \<longrightarrow>
        keep_message (Obj kvs) = Inr True
      \<and> project_message (Obj kvs) =
          Inr (Obj [(''timestamp'', property (Obj payload) ''timestamp''),
                    (''message'', property (Obj payload) ''message''),
                    (''source'', property (Obj payload) ''source''),
                    (''level'', property (Obj payload) ''level'')]))
   \<and> shape_messages (Obj [(''messages'',
         Arr [Null, Undefined, Obj [], Obj [(''message'', Null)],
              Obj [(''message'', Obj [(''timestamp'', ts), (''message'', msg), (''source'', src),
                                     (''level'', lvl)])]])])
       = Inr (Arr [Obj [(''timestamp'', ts), (''message'', msg), (''source'', src), (''level'', lvl)]])"
proof (intro conjI impI)
  assume a: "\<not> nullish data \<and> property data ''messages'' = Arr ms"
  then show s: "shape_messages data =
          Inr (Arr (map (\<lambda>m. Obj [(''timestamp'', property (property m ''message'') ''timestamp''),
                                   (''message'', property (property m ''message'') ''message''),
                                   (''source'', property (property m ''message'') ''source''),
                                   (''level'', property (property m ''message'') ''level'')])
                    (filter (\<lambda>m. truthy m \<and> truthy (property m ''message'')) ms)))"
    using shape_messages_array by blast
  from a show "absolute_result data f t =
          Inr (Obj [(''total_results'', or_else (property data ''total_results'') (Num (Fin 0))),
                    (''query'', property data ''built_query''),
                    (''time_range'', Obj [(''from'', f), (''to'', t)]),
                    (''messages'',
                       Arr (map (\<lambda>m. Obj [(''timestamp'', property (property m ''message'') ''timestamp''),
                                   (''message'', property (property m ''message'') ''message''),
                                   (''source'', property (property m ''message'') ''source''),
                                   (''level'', property (property m ''message'') ''level'')])
                            (filter (\<lambda>m. truthy m \<and> truthy (property m ''message'')) ms)))])"
    by (simp add: s absolute_result_def get_def)
  show "subseq (filter (\<lambda>m. truthy m \<and> truthy (property m ''message'')) ms) ms"
    by simp
  show "relative_result E data r =
            Inr (Obj [(''total_results'', or_else (property data ''total_results'') (Num (Fin 0))),
                      (''query'', property data ''built_query''),
                      (''time_range'', Str (''Last '' @ secs @ '' seconds'')),
                      (''messages'',
                         Arr (map (\<lambda>m. Obj [(''timestamp'', property (property m ''message'') ''timestamp''),
                                   (''message'', property (property m ''message'') ''message''),
                                   (''source'', property (property m ''message'') ''source''),
                                   (''level'', property (property m ''message'') ''level'')])
                              (filter (\<lambda>m. truthy m \<and> truthy (property m ''message'')) ms)))])"
    if "ToString E r = Inr secs"
    using a that by (simp add: s relative_result_def get_def)
next
  show "shape_messages data = Inr (Arr [])"
    if "\<not> nullish data \<and> \<not> truthy (property data ''messages'')"
    using that by (simp add: shape_messages_def get_def or_else_def as_array_def)
next
  show "keep_message m = Inr (truthy m \<and> truthy (property m ''message''))"
    by (rule keep_message_total)
next
  show "keep_message m = Inr False"
    if "m = Null \<or> m = Undefined \<or> property m ''message'' = Null \<or> property m ''message'' = Undefined"
    using that by (auto simp: keep_message_total)
next
  assume p: "map_of kvs ''message'' = Some (Obj payload)"
  then show "keep_message (Obj kvs) = Inr True"
    by (simp add: keep_message_total)
  from p show "project_message (Obj kvs) =
          Inr (Obj [(''timestamp'', property (Obj payload) ''timestamp''),
                    (''message'', property (Obj payload) ''message''),
                    (''source'', property (Obj payload) ''source''),
                    (''level'', property (Obj payload) ''level'')])"
    by (simp add: project_message_kept)
next
  show "shape_messages (Obj [(''messages'',
         Arr [Null, Undefined, Obj [], Obj [(''message'', Null)],
              Obj [(''message'', Obj [(''timestamp'', ts), (''message'', msg), (''source'', src),
                                     (''level'', lvl)])]])])
       = Inr (Arr [Obj [(''timestamp'', ts), (''message'', msg), (''source'', src), (''level'', lvl)]])"
    by (simp add: shape_messages_array [where ms = "[Null, Undefined, Obj [], Obj [(''message'', Null)],
              Obj [(''message'', Obj [(''timestamp'', ts), (''message'', msg), (''source'', src),
                                     (''level'', lvl)])]]"] nullish_def)
qed

theorem search_messages_shaping_witness:
  "shape_messages test_search_response
     = Inr (Arr [Obj [(''timestamp'', Str ''2025-10-23T12:00:00Z''), (''message'', Str ''Valid log''),
                      (''source'', Str ''nexus''), (''level'', Str ''INFO'')]])
   \<and> absolute_result test_search_response (Str ''2025-09-29T17:57:26.568Z'') (Str ''2025-09-30T12:36:20.910Z'')
     = Inr (Obj [(''total_results'', Num (Fin 5)), (''query'', Str ''level:ERROR''),
                 (''time_range'', Obj [(''from'', Str ''2025-09-29T17:57:26.568Z''),
                                       (''to'', Str ''2025-09-30T12:36:20.910Z'')]),
                 (''messages'',
                    Arr [Obj [(''timestamp'', Str ''2025-10-23T12:00:00Z''), (''message'', Str ''Valid log''),
                              (''source'', Str ''nexus''), (''level'', Str ''INFO'')]])])
   \<and> shape_messages (Obj [(''messages'', Arr [last test_messages, Null, last test_messages])])
     = Inr (Arr [Obj [(''timestamp'', Str ''2025-10-23T12:00:00Z''), (''message'', Str ''Valid log''),
                      (''source'', Str ''nexus''), (''level'', Str ''INFO'')],
                 Obj [(''timestamp'', Str ''2025-10-23T12:00:00Z''), (''message'', Str ''Valid log''),
                      (''source'', Str ''nexus''), (''level'', Str ''INFO'')]])
   \<and> keep_message (Obj [(''message'', Null)]) = Inr False
   \<and> keep_message (Obj []) = Inr False
   \<and> keep_message (Obj [(''message'', Num (Fin 0))]) = Inr False"
proof -
  have pre: "\<not> nullish test_search_response
      \<and> property test_search_response ''messages'' = Arr test_messages"
    by (simp add: test_search_response_def nullish_def)
  note inst = search_messages_shaping [where data = test_search_response and ms = test_messages
      and f = "Str ''2025-09-29T17:57:26.568Z''" and t = "Str ''2025-09-30T12:36:20.910Z''",
      THEN conjunct1, THEN mp, OF pre]
  have a: "shape_messages test_search_response
     = Inr (Arr [Obj [(''timestamp'', Str ''2025-10-23T12:00:00Z''), (''message'', Str ''Valid log''),
                      (''source'', Str ''nexus''), (''level'', Str ''INFO'')]])"
    unfolding inst [THEN conjunct1] by (simp add: test_messages_def)
  have b: "absolute_result test_search_response (Str ''2025-09-29T17:57:26.568Z'') (Str ''2025-09-30T12:36:20.910Z'')
     = Inr (Obj [(''total_results'', Num (Fin 5)), (''query'', Str ''level:ERROR''),
                 (''time_range'', Obj [(''from'', Str ''2025-09-29T17:57:26.568Z''),
                                       (''to'', Str ''2025-09-30T12:36:20.910Z'')]),
                 (''messages'',
                    Arr [Obj [(''timestamp'', Str ''2025-10-23T12:00:00Z''), (''message'', Str ''Valid log''),
                              (''source'', Str ''nexus''), (''level'', Str ''INFO'')]])])"
    unfolding inst [THEN conjunct2, THEN conjunct1]
    by (simp add: test_messages_def test_search_response_def or_else_def)
  have pre2: "\<not> nullish (Obj [(''messages'', Arr [last test_messages, Null, last test_messages])])
      \<and> property (Obj [(''messages'', Arr [last test_messages, Null, last test_messages])]) ''messages''
          = Arr [last test_messages, Null, last test_messages]"
    by (simp add: nullish_def)
  have c: "shape_messages (Obj [(''messages'', Arr [last test_messages, Null, last test_messages])])
     = Inr (Arr [Obj [(''timestamp'', Str ''2025-10-23T12:00:00Z''), (''message'', Str ''Valid log''),
                      (''source'', Str ''nexus''), (''level'', Str ''INFO'')],
                 Obj [(''timestamp'', Str ''2025-10-23T12:00:00Z''), (''message'', Str ''Valid log''),
                      (''source'', Str ''nexus''), (''level'', Str ''INFO'')]])"
    unfolding search_messages_shaping [where data = "Obj [(''messages'', Arr [last test_messages, Null, last test_messages])]"
        and ms = "[last test_messages, Null, last test_messages]",
        THEN conjunct1, THEN mp, OF pre2, THEN conjunct1]
    by (simp add: test_messages_def)
  have d: "keep_message (Obj [(''message'', Null)]) = Inr False"
    using search_messages_shaping [where m = "Obj [(''message'', Null)]"] by simp
  have e: "keep_message (Obj []) = Inr False"
    using search_messages_shaping [where m = "Obj []"] by simp
  have g: "keep_message (Obj [(''message'', Num (Fin 0))]) = Inr False"
    using search_messages_shaping [where m = "Obj [(''message'', Num (Fin 0))]"] by simp
  show ?thesis
    by (intro conjI) (rule a b c d e g)+
qed

text \<open>Insertion sort with a comparator: a permutation, sorted when the comparator is
  transitive and total.\<close>

lemma mset_insert_by: "mset (insert_by cmp x xs) = add_mset x (mset xs)"
  by (induction xs) simp_all

lemma mset_sort_by: "mset (sort_by cmp xs) = mset xs"
  by (induction xs) (simp_all add: sort_by_def mset_insert_by)

lemma set_insert_by: "set (insert_by cmp x xs) = insert x (set xs)"
  by (induction xs) auto

lemma sorted_insert_by:
  assumes trans: "\<And>a b c. cmp a b \<le> 0 \<Longrightarrow> cmp b c \<le> 0 \<Longrightarrow> cmp a c \<le> 0"
    and total: "\<And>a b. cmp a b \<le> 0 \<or> cmp b a \<le> 0"
  shows "sorted_wrt (\<lambda>a b. cmp a b \<le> 0) xs \<Longrightarrow> sorted_wrt (\<lambda>a b. cmp a b \<le> 0) (insert_by cmp x xs)"
proof (induction xs)
  case Nil
  then show ?case by simp
next
  case (Cons y ys)
  show ?case
  proof (cases "cmp x y \<le> 0")
    case True
    with Cons.prems trans show ?thesis by auto
  next
    case False
    with total have "cmp y x \<le> 0" by blast
    with False Cons show ?thesis by (auto simp: set_insert_by)
  qed
qed

lemma sorted_sort_by:
  assumes "\<And>a b c. cmp a b \<le> 0 \<Longrightarrow> cmp b c \<le> 0 \<Longrightarrow> cmp a c \<le> 0"
    and "\<And>a b. cmp a b \<le> 0 \<or> cmp b a \<le> 0"
  shows "sorted_wrt (\<lambda>a b. cmp a b \<le> 0) (sort_by cmp xs)"
proof (induction xs)
  case Nil
  show ?case by (simp add: sort_by_def)
next
  case (Cons x xs)
  have "sort_by cmp (x # xs) = insert_by cmp x (sort_by cmp xs)"
    by (simp add: sort_by_def)
  with Cons sorted_insert_by [of cmp, OF assms] show ?case by simp
qed

lemma sort_by_short: "length xs < 2 \<Longrightarrow> sort_by cmp xs = xs"
  by (cases xs; cases "tl xs") (simp_all add: sort_by_def)

lemma keep_stream_total: "\<not> nullish s \<Longrightarrow> keep_stream s = Inr (\<not> truthy (property s ''is_default''))"
  by (simp add: keep_stream_def get_def)

lemma project_stream_total:
  "\<not> nullish s \<Longrightarrow>
   project_stream s =
     Inr (Obj [(''id'', property s ''id''), (''title'', property s ''title''),
               (''description'', or_else (property s ''description'') (Str [])),
               (''disabled'', property s ''disabled'')])"
  by (simp add: project_stream_def get_def)

lemma sort_streams_typed:
  "list_all (\<lambda>s. typeof (property s ''title'') = ''string'') xs \<Longrightarrow>
   sort_streams E xs = Inr (sort_by (title_compare E) xs)"
  by (simp add: sort_streams_def sort_by_short)

lemma codepoint_compare_consistent:
  "(codepoint_compare a b \<le> 0 \<and> codepoint_compare b c \<le> 0 \<longrightarrow> codepoint_compare a c \<le> 0)
   \<and> (codepoint_compare a b \<le> 0 \<or> codepoint_compare b a \<le> 0)"
  by (auto simp: codepoint_compare_def split: if_splits)

text \<open>
  C5. The stream list excludes the entries whose \<^verbatim>\<open>is_default\<close> is truthy, not only
  those where it is the boolean \<^verbatim>\<open>true\<close>: an entry with \<^verbatim>\<open>is_default: 1\<close> is
  excluded.
\<close>

theorem stream_default_filter_counterexample:
  "property (Obj [(''id'', Str ''7''), (''title'', Str ''app''), (''is_default'', Num (Fin 1))]) ''is_default''
     \<noteq> Bool True
   \<and> streams_result reference_engine
       (Obj [(''streams'', Arr [Obj [(''id'', Str ''7''), (''title'', Str ''app''),
                                    (''is_default'', Num (Fin 1))]])])
     = Inr (Obj [(''total'', Num (Fin 0)), (''streams'', Arr [])])"
  by (simp add: streams_result_def get_def nullish_def or_else_def as_array_def keep_stream_def
                sort_streams_def)

text \<open>
  C5, as amended. For a response whose \<^verbatim>\<open>streams\<close> is an array \<open>ss\<close> of non-null
  entries, of which those with a falsy \<^verbatim>\<open>is_default\<close> have a string title, and for a
  \<^verbatim>\<open>localeCompare\<close> that is transitive and total: the result is
  \<^verbatim>\<open>{total, streams}\<close> where \<^verbatim>\<open>streams\<close> projects, to \<^verbatim>\<open>id\<close>,
  \<^verbatim>\<open>title\<close>, \<^verbatim>\<open>description\<close> (the empty string when absent or falsy) and
  \<^verbatim>\<open>disabled\<close>, the stable sort by title of exactly the entries whose
  \<^verbatim>\<open>is_default\<close> is falsy (a permutation of them, ascending under
  \<^verbatim>\<open>localeCompare\<close>), and \<^verbatim>\<open>total\<close> is their number. An entry is kept exactly
  when its \<^verbatim>\<open>is_default\<close> is falsy: \<^verbatim>\<open>true\<close> is excluded, \<^verbatim>\<open>false\<close>,
  \<^verbatim>\<open>null\<close> and absent are kept.
\<close>

theorem stream_list_shaping:
  "(\<not> nullish data \<and> property data ''streams'' = Arr ss
     \<and> (\<forall>s \<in> set ss. \<not> nullish s)
     \<and> (\<forall>s \<in> set ss. \<not> truthy (property s ''is_default'') \<longrightarrow> typeof (property s ''title'') = ''string'')
     \<and> (\<forall>a b c. localeCompare E a b \<le> 0 \<and> localeCompare E b c \<le> 0 \<longrightarrow> localeCompare E a c \<le> 0)
     \<and> (\<forall>a b. localeCompare E a b \<le> 0 \<or> localeCompare E b a \<le> 0)
    \<longrightarrow> (\<exists>sorted.
          sorted = sort_by (title_compare E) (filter (\<lambda>s. \<not> truthy (property s ''is_default'')) ss)
        \<and> mset sorted = mset (filter (\<lambda>s. \<not> truthy (property s ''is_default'')) ss)
        \<and> sorted_wrt (\<lambda>a b. localeCompare E (the_string (property a ''title''))
                                            (the_string (property b ''title'')) \<le> 0) sorted
        \<and> streams_result E data =
            Inr (Obj [(''total'', Num (Fin (real (length sorted)))),
                      (''streams'',
                         Arr (map (\<lambda>s. Obj [(''id'', property s ''id''), (''title'', property s ''title''),
                                            (''description'', or_else (property s ''description'') (Str [])),
                                            (''disabled'', property s ''disabled'')]) sorted))])))
   \<and> (\<not> nullish s \<longrightarrow> keep_stream s = Inr (\<not> truthy (property s ''is_default'')))
   \<and> \<not> truthy (Bool False) \<and> \<not> truthy Undefined \<and> \<not> truthy Null \<and> truthy (Bool True)
   \<and> or_else Undefined (Str []) = Str []"
proof (intro conjI impI)
  assume a: "\<not> nullish data \<and> property data ''streams'' = Arr ss
     \<and> (\<forall>s \<in> set ss. \<not> nullish s)
     \<and> (\<forall>s \<in> set ss. \<not> truthy (property s ''is_default'') \<longrightarrow> typeof (property s ''title'') = ''string'')
     \<and> (\<forall>a b c. localeCompare E a b \<le> 0 \<and> localeCompare E b c \<le> 0 \<longrightarrow> localeCompare E a c \<le> 0)
     \<and> (\<forall>a b. localeCompare E a b \<le> 0 \<or> localeCompare E b a \<le> 0)"
  then have data: "\<not> nullish data" "property data ''streams'' = Arr ss"
    and entries: "\<And>s. s \<in> set ss \<Longrightarrow> \<not> nullish s"
    and titles: "\<And>s. s \<in> set ss \<Longrightarrow> \<not> truthy (property s ''is_default'') \<Longrightarrow>
                   typeof (property s ''title'') = ''string''"
    and tr: "\<And>a b c. localeCompare E a b \<le> 0 \<Longrightarrow> localeCompare E b c \<le> 0 \<Longrightarrow>
                   localeCompare E a c \<le> 0"
    and tot: "\<And>a b. localeCompare E a b \<le> 0 \<or> localeCompare E b a \<le> 0"
    by blast+
  define kept where "kept = filter (\<lambda>s. \<not> truthy (property s ''is_default'')) ss"
  define sorted where "sorted = sort_by (title_compare E) kept"
  have kept: "filter_js keep_stream ss = Inr kept"
    unfolding kept_def by (rule filter_js_total) (simp add: keep_stream_total entries)
  have typed: "list_all (\<lambda>s. typeof (property s ''title'') = ''string'') kept"
    unfolding kept_def by (simp add: list_all_iff titles)
  have "set sorted = set kept"
    unfolding sorted_def by (rule mset_eq_setD) (rule mset_sort_by)
  then have in_ss: "s \<in> set sorted \<Longrightarrow> s \<in> set ss" for s
    by (simp add: kept_def)
  have proj: "map_js project_stream sorted =
      Inr (map (\<lambda>s. Obj [(''id'', property s ''id''), (''title'', property s ''title''),
                         (''description'', or_else (property s ''description'') (Str [])),
                         (''disabled'', property s ''disabled'')]) sorted)"
    by (rule map_js_total) (simp add: project_stream_total entries in_ss)
  have "sorted_wrt (\<lambda>a b. title_compare E a b \<le> 0) sorted"
    unfolding sorted_def
  proof (rule sorted_sort_by)
    show "title_compare E x y \<le> 0 \<Longrightarrow> title_compare E y z \<le> 0 \<Longrightarrow> title_compare E x z \<le> 0"
      for x y z
      unfolding title_compare_def by (rule tr)
    show "title_compare E x y \<le> 0 \<or> title_compare E y x \<le> 0" for x y
      unfolding title_compare_def by (rule tot)
  qed
  then have ordered: "sorted_wrt (\<lambda>a b. localeCompare E (the_string (property a ''title''))
                                            (the_string (property b ''title'')) \<le> 0) sorted"
    by (simp add: title_compare_def)
  have sorts: "sort_streams E kept = Inr sorted"
    unfolding sorted_def by (rule sort_streams_typed) (rule typed)
  have result: "streams_result E data =
            Inr (Obj [(''total'', Num (Fin (real (length sorted)))),
                      (''streams'',
                         Arr (map (\<lambda>s. Obj [(''id'', property s ''id''), (''title'', property s ''title''),
                                            (''description'', or_else (property s ''description'') (Str [])),
                                            (''disabled'', property s ''disabled'')]) sorted))])"
    using data by (simp add: streams_result_def get_def or_else_def as_array_def kept sorts proj)
  have perm: "mset sorted = mset kept"
    unfolding sorted_def by (rule mset_sort_by)
  show "\<exists>sorted.
          sorted = sort_by (title_compare E) (filter (\<lambda>s. \<not> truthy (property s ''is_default'')) ss)
        \<and> mset sorted = mset (filter (\<lambda>s. \<not> truthy (property s ''is_default'')) ss)
        \<and> sorted_wrt (\<lambda>a b. localeCompare E (the_string (property a ''title''))
                                            (the_string (property b ''title'')) \<le> 0) sorted
        \<and> streams_result E data =
            Inr (Obj [(''total'', Num (Fin (real (length sorted)))),
                      (''streams'',
                         Arr (map (\<lambda>s. Obj [(''id'', property s ''id''), (''title'', property s ''title''),
                                            (''description'', or_else (property s ''description'') (Str [])),
                                            (''disabled'', property s ''disabled'')]) sorted))])"
  proof (intro exI [of _ sorted] conjI)
    show "sorted = sort_by (title_compare E) (filter (\<lambda>s. \<not> truthy (property s ''is_default'')) ss)"
      by (simp add: sorted_def kept_def)
    show "mset sorted = mset (filter (\<lambda>s. \<not> truthy (property s ''is_default'')) ss)"
      using perm by (simp add: kept_def)
  qed (rule ordered result)+
next
  show "keep_stream s = Inr (\<not> truthy (property s ''is_default''))" if "\<not> nullish s"
    using that by (rule keep_stream_total)
qed (simp_all add: or_else_def)

theorem stream_list_shaping_witness:
  "streams_result reference_engine (Obj [(''streams'', Arr test_streams)])
     = Inr (Obj [(''total'', Num (Fin 2)),
                 (''streams'',
                    Arr [Obj [(''id'', Str ''1''), (''title'', Str ''alpha''),
                              (''description'', Str ''first''), (''disabled'', Bool True)],
                         Obj [(''id'', Str ''2''), (''title'', Str ''beta''),
                              (''description'', Str []), (''disabled'', Bool False)]])])
   \<and> (\<exists>sorted.
          sorted = sort_by (title_compare reference_engine)
                     (filter (\<lambda>s. \<not> truthy (property s ''is_default'')) test_streams)
        \<and> mset sorted = mset (filter (\<lambda>s. \<not> truthy (property s ''is_default'')) test_streams)
        \<and> sorted_wrt (\<lambda>a b. localeCompare reference_engine (the_string (property a ''title''))
                               (the_string (property b ''title'')) \<le> 0) sorted
        \<and> streams_result reference_engine (Obj [(''streams'', Arr test_streams)]) =
            Inr (Obj [(''total'', Num (Fin (real (length sorted)))),
                      (''streams'',
                         Arr (map (\<lambda>s. Obj [(''id'', property s ''id''), (''title'', property s ''title''),
                                            (''description'', or_else (property s ''description'') (Str [])),
                                            (''disabled'', property s ''disabled'')]) sorted))]))
   \<and> keep_stream (Obj [(''id'', Str ''0''), (''title'', Str ''All messages''), (''is_default'', Bool True)])
     = Inr False"
proof -
  have cmp: "localeCompare reference_engine = codepoint_compare"
    by (simp add: reference_engine_def)
  have p1: "\<not> nullish (Obj [(''streams'', Arr test_streams)])"
    and p2: "property (Obj [(''streams'', Arr test_streams)]) ''streams'' = Arr test_streams"
    by (simp_all add: nullish_def)
  have p3: "\<forall>s \<in> set test_streams. \<not> nullish s"
    by (simp add: nullish_def test_streams_def)
  have p4: "\<forall>s \<in> set test_streams. \<not> truthy (property s ''is_default'') \<longrightarrow>
           typeof (property s ''title'') = ''string''"
    by (simp add: test_streams_def)
  have p5: "\<forall>a b c. localeCompare reference_engine a b \<le> 0 \<and> localeCompare reference_engine b c \<le> 0
           \<longrightarrow> localeCompare reference_engine a c \<le> 0"
    unfolding cmp using codepoint_compare_consistent by blast
  have p6: "\<forall>a b. localeCompare reference_engine a b \<le> 0 \<or> localeCompare reference_engine b a \<le> 0"
    unfolding cmp using codepoint_compare_consistent by blast
  note inst = stream_list_shaping [where E = reference_engine
      and data = "Obj [(''streams'', Arr test_streams)]" and ss = test_streams]
  note a = inst [THEN conjunct1, THEN mp, OF conjI [OF p1 conjI [OF p2 conjI [OF p3 conjI [OF p4 conjI [OF p5 p6]]]]]]
  have b: "streams_result reference_engine (Obj [(''streams'', Arr test_streams)])
     = Inr (Obj [(''total'', Num (Fin 2)),
                 (''streams'',
                    Arr [Obj [(''id'', Str ''1''), (''title'', Str ''alpha''),
                              (''description'', Str ''first''), (''disabled'', Bool True)],
                         Obj [(''id'', Str ''2''), (''title'', Str ''beta''),
                              (''description'', Str []), (''disabled'', Bool False)]])])"
    by (simp add: streams_result_def test_streams_def get_def nullish_def or_else_def as_array_def
                  keep_stream_def sort_streams_def sort_by_def title_compare_def reference_engine_def
                  codepoint_compare_def project_stream_def)
  have c: "keep_stream (Obj [(''id'', Str ''0''), (''title'', Str ''All messages''), (''is_default'', Bool True)])
     = Inr False"
    using inst [where s = "Obj [(''id'', Str ''0''), (''title'', Str ''All messages''), (''is_default'', Bool True)]",
                THEN conjunct2, THEN conjunct1]
    by (simp add: nullish_def)
  show ?thesis
    by (intro conjI) (rule b, rule a, rule c)
qed

subsection \<open>The dispatcher\<close>

lemma tool_switch_success:
  "tool_switch E C net req = Inr env \<Longrightarrow> \<exists>result. env = json_envelope E result"
  by (auto simp: tool_switch_def searchLogsAbsolute_def searchLogsRelative_def listStreams_def
                 getSystemInfo_def and_then_def split: if_splits sum.splits)


text \<open>
  C1. For every request, engine, configuration and network: if anything the selected
  operation does throws \<open>e\<close> (a validation error, the error made from a remote
  failure, an exception while shaping, the unknown-tool error), the handler returns the
  envelope with \<^verbatim>\<open>isError: true\<close> whose one text item is \<open>Error: \<close> followed by
  the message of \<open>e\<close>; otherwise it returns the operation's envelope. It always
  returns an envelope with exactly one text item: nothing is thrown past it. The layers
  one by one: a failed validation of either search, a remote failure of
  \<^verbatim>\<open>list_streams\<close> as normalized by \<^verbatim>\<open>formatError\<close>, an exception in its
  shaping, and an unknown tool name.
\<close>

theorem handler_catches_everything:
  "(\<forall>e. tool_switch E C net req = Inl e \<longrightarrow>
        handler E C net req =
          \<lparr>content = [\<lparr>type = ''text'', text = ''Error: '' @ message e\<rparr>], isError = Some True\<rparr>)
   \<and> ((\<exists>e. tool_switch E C net req = Inl e) \<or>
       (\<exists>result. handler E C net req =
          \<lparr>content = [\<lparr>type = ''text'', text = JSON_stringify E result\<rparr>], isError = None\<rparr>))
   \<and> (\<exists>txt flag. handler E C net req = \<lparr>content = [\<lparr>type = ''text'', text = txt\<rparr>], isError = flag\<rparr>)
   \<and> (\<forall>e. name req = ''search_logs_absolute'' \<and> absolute_params E (arguments req) = Inl e \<longrightarrow>
        handler E C net req =
          \<lparr>content = [\<lparr>type = ''text'', text = ''Error: '' @ message e\<rparr>], isError = Some True\<rparr>)
   \<and> (\<forall>e. name req = ''search_logs_relative'' \<and> relative_params E (arguments req) = Inl e \<longrightarrow>
        handler E C net req =
          \<lparr>content = [\<lparr>type = ''text'', text = ''Error: '' @ message e\<rparr>], isError = Some True\<rparr>)
   \<and> (\<forall>err m. name req = ''list_streams'' \<and> (\<forall>rq. net rq = Inl err) \<and> formatError E C err = Inr m \<longrightarrow>
        handler E C net req =
          \<lparr>content = [\<lparr>type = ''text'', text = ''Error: '' @ m\<rparr>], isError = Some True\<rparr>)
   \<and> (\<forall>body e. name req = ''list_streams'' \<and> (\<forall>rq. net rq = Inr body) \<and> streams_result E body = Inl e \<longrightarrow>
        handler E C net req =
          \<lparr>content = [\<lparr>type = ''text'', text = ''Error: '' @ message e\<rparr>], isError = Some True\<rparr>)
   \<and> (name req \<notin> {''search_logs_absolute'', ''search_logs_relative'', ''list_streams'', ''get_system_info''} \<longrightarrow>
        handler E C net req =
          \<lparr>content = [\<lparr>type = ''text'', text = ''Error: '' @ ''Unknown tool: '' @ name req\<rparr>],
           isError = Some True\<rparr>)"
proof (intro conjI allI impI)
  show "handler E C net req =
          \<lparr>content = [\<lparr>type = ''text'', text = ''Error: '' @ message e\<rparr>], isError = Some True\<rparr>"
    if "tool_switch E C net req = Inl e" for e
    using that by (simp add: handler_def)
  show "(\<exists>e. tool_switch E C net req = Inl e) \<or>
       (\<exists>result. handler E C net req =
          \<lparr>content = [\<lparr>type = ''text'', text = JSON_stringify E result\<rparr>], isError = None\<rparr>)"
  proof (cases "tool_switch E C net req")
    case (Inl e)
    then show ?thesis by blast
  next
    case (Inr env)
    with tool_switch_success [OF Inr] show ?thesis
      by (auto simp: handler_def json_envelope_def)
  qed
  then show "\<exists>txt flag. handler E C net req = \<lparr>content = [\<lparr>type = ''text'', text = txt\<rparr>], isError = flag\<rparr>"
    by (auto simp: handler_def)
  show "handler E C net req =
          \<lparr>content = [\<lparr>type = ''text'', text = ''Error: '' @ message e\<rparr>], isError = Some True\<rparr>"
    if "name req = ''search_logs_absolute'' \<and> absolute_params E (arguments req) = Inl e" for e
    using that by (simp add: handler_def tool_switch_def searchLogsAbsolute_def)
  show "handler E C net req =
          \<lparr>content = [\<lparr>type = ''text'', text = ''Error: '' @ message e\<rparr>], isError = Some True\<rparr>"
    if "name req = ''search_logs_relative'' \<and> relative_params E (arguments req) = Inl e" for e
    using that by (simp add: handler_def tool_switch_def searchLogsRelative_def)
  show "handler E C net req =
          \<lparr>content = [\<lparr>type = ''text'', text = ''Error: '' @ m\<rparr>], isError = Some True\<rparr>"
    if "name req = ''list_streams'' \<and> (\<forall>rq. net rq = Inl err) \<and> formatError E C err = Inr m" for err m
    using that by (simp add: handler_def tool_switch_def listStreams_def graylogRequest_def)
  show "handler E C net req =
          \<lparr>content = [\<lparr>type = ''text'', text = ''Error: '' @ message e\<rparr>], isError = Some True\<rparr>"
    if "name req = ''list_streams'' \<and> (\<forall>rq. net rq = Inr body) \<and> streams_result E body = Inl e" for body e
    using that by (simp add: handler_def tool_switch_def listStreams_def graylogRequest_def)
  show "handler E C net req =
          \<lparr>content = [\<lparr>type = ''text'', text = ''Error: '' @ ''Unknown tool: '' @ name req\<rparr>],
           isError = Some True\<rparr>"
    if "name req \<notin> {''search_logs_absolute'', ''search_logs_relative'', ''list_streams'', ''get_system_info''}"
    using that by (simp add: handler_def tool_switch_def)
qed


theorem handler_catches_everything_witness:
  "absolute_params reference_engine
      (Obj [(''query'', Str []), (''from'', Str ''2025-01-01T00:00:00Z''), (''to'', Str ''2025-01-02T00:00:00Z'')])
     = Inl (Error '''query' parameter is required and must be a non-empty string'')
   \<and> handler reference_engine test_config (\<lambda>rq. Inr (Obj []))
       \<lparr>name = ''search_logs_absolute'',
        arguments = Obj [(''query'', Str []), (''from'', Str ''2025-01-01T00:00:00Z''),
                         (''to'', Str ''2025-01-02T00:00:00Z'')]\<rparr>
     = \<lparr>content = [\<lparr>type = ''text'',
                       text = ''Error: 'query' parameter is required and must be a non-empty string''\<rparr>],
        isError = Some True\<rparr>
   \<and> formatError reference_engine test_config
       \<lparr>response = Some \<lparr>status = 401, response_data = Null\<rparr>, request = True,
        axios_message = ''Request failed with status code 401''\<rparr>
     = Inr ''Authentication failed. Check API_TOKEN in MCP configuration.''
   \<and> handler reference_engine test_config
       (\<lambda>rq. Inl \<lparr>response = Some \<lparr>status = 401, response_data = Null\<rparr>, request = True,
                    axios_message = ''Request failed with status code 401''\<rparr>)
       \<lparr>name = ''list_streams'', arguments = Undefined\<rparr>
     = \<lparr>content = [\<lparr>type = ''text'',
                       text = ''Error: Authentication failed. Check API_TOKEN in MCP configuration.''\<rparr>],
        isError = Some True\<rparr>
   \<and> streams_result reference_engine Null
     = Inl (TypeError ''Cannot read properties of null (reading 'streams')'')
   \<and> handler reference_engine test_config (\<lambda>rq. Inr Null)
       \<lparr>name = ''list_streams'', arguments = Undefined\<rparr>
     = \<lparr>content = [\<lparr>type = ''text'',
                       text = ''Error: Cannot read properties of null (reading 'streams')''\<rparr>],
        isError = Some True\<rparr>
   \<and> relative_params reference_engine Undefined
     = Inl (TypeError ''Cannot destructure property 'query' of 'args' as it is undefined.'')
   \<and> handler reference_engine test_config (\<lambda>rq. Inr Null)
       \<lparr>name = ''search_logs_relative'', arguments = Undefined\<rparr>
     = \<lparr>content = [\<lparr>type = ''text'',
                       text = ''Error: Cannot destructure property 'query' of 'args' as it is undefined.''\<rparr>],
        isError = Some True\<rparr>"
proof -
  have v: "absolute_params reference_engine
      (Obj [(''query'', Str []), (''from'', Str ''2025-01-01T00:00:00Z''), (''to'', Str ''2025-01-02T00:00:00Z'')])
     = Inl (Error '''query' parameter is required and must be a non-empty string'')"
    by (simp add: absolute_params_def destructure_def nullish_def query_invalid_def)
  have a: "handler reference_engine test_config (\<lambda>rq. Inr (Obj []))
       \<lparr>name = ''search_logs_absolute'',
        arguments = Obj [(''query'', Str []), (''from'', Str ''2025-01-01T00:00:00Z''),
                         (''to'', Str ''2025-01-02T00:00:00Z'')]\<rparr>
     = \<lparr>content = [\<lparr>type = ''text'',
                       text = ''Error: 'query' parameter is required and must be a non-empty string''\<rparr>],
        isError = Some True\<rparr>"
    using handler_catches_everything [where E = reference_engine and C = test_config
            and net = "\<lambda>rq. Inr (Obj [])"
            and req = "\<lparr>name = ''search_logs_absolute'',
                         arguments = Obj [(''query'', Str []), (''from'', Str ''2025-01-01T00:00:00Z''),
                                          (''to'', Str ''2025-01-02T00:00:00Z'')]\<rparr>"] v
    by simp
  have f: "formatError reference_engine test_config
       \<lparr>response = Some \<lparr>status = 401, response_data = Null\<rparr>, request = True,
        axios_message = ''Request failed with status code 401''\<rparr>
     = Inr ''Authentication failed. Check API_TOKEN in MCP configuration.''"
    by (simp add: formatError_def)
  have b: "handler reference_engine test_config
       (\<lambda>rq. Inl \<lparr>response = Some \<lparr>status = 401, response_data = Null\<rparr>, request = True,
                    axios_message = ''Request failed with status code 401''\<rparr>)
       \<lparr>name = ''list_streams'', arguments = Undefined\<rparr>
     = \<lparr>content = [\<lparr>type = ''text'',
                       text = ''Error: Authentication failed. Check API_TOKEN in MCP configuration.''\<rparr>],
        isError = Some True\<rparr>"
    using handler_catches_everything [where E = reference_engine and C = test_config
            and net = "\<lambda>rq. Inl \<lparr>response = Some \<lparr>status = 401, response_data = Null\<rparr>, request = True,
                                     axios_message = ''Request failed with status code 401''\<rparr>"
            and req = "\<lparr>name = ''list_streams'', arguments = Undefined\<rparr>"] f
    by simp
  have s: "streams_result reference_engine Null
     = Inl (TypeError ''Cannot read properties of null (reading 'streams')'')"
    by (simp add: streams_result_def get_def nullish_def)
  have c: "handler reference_engine test_config (\<lambda>rq. Inr Null)
       \<lparr>name = ''list_streams'', arguments = Undefined\<rparr>
     = \<lparr>content = [\<lparr>type = ''text'',
                       text = ''Error: Cannot read properties of null (reading 'streams')''\<rparr>],
        isError = Some True\<rparr>"
    using handler_catches_everything [where E = reference_engine and C = test_config
            and net = "\<lambda>rq. Inr Null"
            and req = "\<lparr>name = ''list_streams'', arguments = Undefined\<rparr>"] s
    by simp
  have r: "relative_params reference_engine Undefined
     = Inl (TypeError ''Cannot destructure property 'query' of 'args' as it is undefined.'')"
    by (simp add: relative_params_def destructure_def nullish_def)
  have d: "handler reference_engine test_config (\<lambda>rq. Inr Null)
       \<lparr>name = ''search_logs_relative'', arguments = Undefined\<rparr>
     = \<lparr>content = [\<lparr>type = ''text'',
                       text = ''Error: Cannot destructure property 'query' of 'args' as it is undefined.''\<rparr>],
        isError = Some True\<rparr>"
    using handler_catches_everything [where E = reference_engine and C = test_config
            and net = "\<lambda>rq. Inr Null"
            and req = "\<lparr>name = ''search_logs_relative'', arguments = Undefined\<rparr>"] r
    by simp
  show ?thesis
    by (intro conjI) (rule v a f b s c r d)+
qed


text \<open>
  C9. For a tool name that is none of the four, the \<^verbatim>\<open>switch\<close> throws
  \<open>Unknown tool: \<close> followed by the name, and the handler returns the error
  envelope with the text \<open>Error: Unknown tool: \<close> followed by the name. No operation
  runs: the result is the same for every engine, configuration, network and arguments.
  For the name \<open>foo\<close> the text is \<open>Error: Unknown tool: foo\<close>.
\<close>

theorem unknown_tool:
  "(name req \<notin> {''search_logs_absolute'', ''search_logs_relative'', ''list_streams'', ''get_system_info''} \<longrightarrow>
      tool_switch E C net req = Inl (Error (''Unknown tool: '' @ name req))
    \<and> handler E C net req =
        \<lparr>content = [\<lparr>type = ''text'', text = ''Error: '' @ ''Unknown tool: '' @ name req\<rparr>],
         isError = Some True\<rparr>
    \<and> handler E C net req = handler E' C' net' (req\<lparr>arguments := args'\<rparr>))
   \<and> handler E C net \<lparr>name = ''foo'', arguments = args\<rparr> =
        \<lparr>content = [\<lparr>type = ''text'', text = ''Error: Unknown tool: foo''\<rparr>], isError = Some True\<rparr>"
  by (simp add: handler_def tool_switch_def)

theorem unknown_tool_witness:
  "''foo'' \<notin> {''search_logs_absolute'', ''search_logs_relative'', ''list_streams'', ''get_system_info''}
   \<and> tool_switch reference_engine test_config (\<lambda>rq. Inr Null)
        \<lparr>name = ''foo'', arguments = Obj [(''query'', Str ''x'')]\<rparr>
     = Inl (Error ''Unknown tool: foo'')
   \<and> handler reference_engine test_config (\<lambda>rq. Inr Null)
        \<lparr>name = ''foo'', arguments = Obj [(''query'', Str ''x'')]\<rparr>
     = \<lparr>content = [\<lparr>type = ''text'', text = ''Error: Unknown tool: foo''\<rparr>], isError = Some True\<rparr>"
  using unknown_tool [where E = reference_engine and C = test_config and net = "\<lambda>rq. Inr Null"
          and req = "\<lparr>name = ''foo'', arguments = Obj [(''query'', Str ''x'')]\<rparr>"]
  by simp

end
